theory Spec2Isabelle
  imports Complex_Main "HOL-Library.Word" "HOL-Library.Monad_Syntax"
begin

section \<open>The embedded runtime, as the binding layer uses it\<close>

text \<open>
  BleachLua is a C++ layer over the Lua 5.3 C API (\<open>BLEACHLUA_CORE_VERSION 53\<close>). The
  runtime itself is an external library; the primitives below follow the Lua 5.3
  reference manual. A computation that does not return normally (a failed \<open>assert\<close>, a
  null dereference, a runtime error outside a protected call) has the value \<open>None\<close>.
  An \<open>LNumber\<close> holds the value of a \<open>lua_Number\<close>, a \<open>double\<close>; infinities and NaN are
  left out.
\<close>

datatype cptr = NullPtr | NativePtr nat | BlockPtr nat

datatype lua_value =
    LNil
  | LBoolean bool
  | LInteger int
  | LNumber real
  | LString string
  | LTable nat
  | LFunction nat
  | LCFunction nat
  | LLightUserData cptr
  | LUserData nat

datatype LuaState_ptr = NullState | TheState

text \<open>
  One interpreter context and the C++ heap beside it. The operand stack is written bottom
  first, as in the stack comments of the source (\<open>[t, key]\<close>: \<open>key\<close> is the top).
  \<open>registry\<close> is the part of the registry table that \<open>luaL_ref\<close> manages: slot \<open>i\<close> of
  the list is the reference \<open>i + 1\<close>, \<open>None\<close> is a free one. \<open>refcounts\<close> is the heap of
  \<open>_Internal::RefCount\<close> objects (\<open>size_t m_refCount\<close>), \<open>None\<close> a deleted one.
  \<open>cerr\<close> collects what \<open>LUA_ERROR\<close> prints. \<open>tables\<close> holds the entries of each table,
  \<open>metatables\<close> the metatable of each table (the address of another table), \<open>None\<close> or no
  entry for a table that has none.
\<close>

record world =
  stack :: "lua_value list"
  registry :: "lua_value option list"
  tables :: "(lua_value \<times> lua_value) list list"
  metatables :: "nat option list"
  udata :: "cptr list"
  refcounts :: "64 word option list"
  cerr :: "string list"
  s_pDefaultLuaState :: LuaState_ptr

definition LUA_REFNIL :: int where
  "LUA_REFNIL = -1"

definition LUA_ERROR :: "string \<Rightarrow> world \<Rightarrow> world" where
  "LUA_ERROR msg w = w\<lparr>cerr := cerr w @ [msg]\<rparr>"

subsection \<open>Stack primitives\<close>

definition lua_gettop :: "world \<Rightarrow> nat" where
  "lua_gettop w = length (stack w)"

definition push :: "lua_value \<Rightarrow> world \<Rightarrow> world" where
  "push v w = w\<lparr>stack := stack w @ [v]\<rparr>"

definition lua_pop :: "nat \<Rightarrow> world \<Rightarrow> world" where
  "lua_pop n w = w\<lparr>stack := take (length (stack w) - n) (stack w)\<rparr>"

definition lua_settop :: "nat \<Rightarrow> world \<Rightarrow> world" where
  "lua_settop n w =
     w\<lparr>stack := take n (stack w) @ replicate (n - length (stack w)) LNil\<rparr>"

text \<open>
  The value at a stack index: positive indices count from the bottom, negative ones from
  the top. \<open>None\<close> is "no value" (\<open>LUA_TNONE\<close>), also for an index outside the stack.
\<close>

definition stack_pos :: "world \<Rightarrow> int \<Rightarrow> nat option" where
  "stack_pos w idx =
     (let n = int (length (stack w)) in
      if 0 < idx \<and> idx \<le> n then Some (nat (idx - 1))
      else if idx < 0 \<and> - idx \<le> n then Some (nat (n + idx))
      else None)"

definition lua_at :: "world \<Rightarrow> int \<Rightarrow> lua_value option" where
  "lua_at w idx = map_option (\<lambda>i. stack w ! i) (stack_pos w idx)"

definition lua_pushvalue :: "int \<Rightarrow> world \<Rightarrow> world" where
  "lua_pushvalue idx w = push (case lua_at w idx of None \<Rightarrow> LNil | Some v \<Rightarrow> v) w"

definition c_str :: "string \<Rightarrow> string" where
  \<comment> \<open>what a \<open>const char*\<close> reader sees of a string: the characters before the first NUL\<close>
  "c_str s = takeWhile (\<lambda>c. c \<noteq> CHR 0x00) s"

definition lua_pushstring :: "string option \<Rightarrow> world \<Rightarrow> world" where
  \<comment> \<open>the argument is a \<open>const char*\<close>: \<open>NULL\<close> pushes nil, else the string ends at its first NUL\<close>
  "lua_pushstring s w = push (case s of None \<Rightarrow> LNil | Some t \<Rightarrow> LString (c_str t)) w"

definition lua_remove :: "int \<Rightarrow> world \<Rightarrow> world" where
  "lua_remove idx w =
     (let n = int (length (stack w));
          i = (if 0 < idx then idx - 1 else n + idx) in
      if 0 \<le> i \<and> i < n
      then w\<lparr>stack := take (nat i) (stack w) @ drop (Suc (nat i)) (stack w)\<rparr>
      else w)"

subsection \<open>Types\<close>

definition LUA_TNONE :: int where "LUA_TNONE = -1"
definition LUA_TTABLE :: int where "LUA_TTABLE = 5"

fun type_tag :: "lua_value \<Rightarrow> int" where
  "type_tag LNil = 0"
| "type_tag (LBoolean _) = 1"
| "type_tag (LLightUserData _) = 2"
| "type_tag (LInteger _) = 3"
| "type_tag (LNumber _) = 3"
| "type_tag (LString _) = 4"
| "type_tag (LTable _) = 5"
| "type_tag (LFunction _) = 6"
| "type_tag (LCFunction _) = 6"
| "type_tag (LUserData _) = 7"

definition lua_type :: "world \<Rightarrow> int \<Rightarrow> int" where
  "lua_type w idx = (case lua_at w idx of None \<Rightarrow> LUA_TNONE | Some v \<Rightarrow> type_tag v)"

definition lua_typename :: "int \<Rightarrow> string" where
  "lua_typename t =
     (if t = -1 then ''no value'' else if t = 0 then ''nil''
      else if t = 1 then ''boolean'' else if t = 2 then ''userdata''
      else if t = 3 then ''number'' else if t = 4 then ''string''
      else if t = 5 then ''table'' else if t = 6 then ''function''
      else if t = 7 then ''userdata'' else ''thread'')"

definition lua_istable :: "world \<Rightarrow> int \<Rightarrow> bool" where
  "lua_istable w idx = (lua_type w idx = LUA_TTABLE)"

definition lua_isfunction :: "world \<Rightarrow> int \<Rightarrow> bool" where
  "lua_isfunction w idx = (lua_type w idx = 6)"

definition lua_isboolean :: "world \<Rightarrow> int \<Rightarrow> bool" where
  "lua_isboolean w idx = (lua_type w idx = 1)"

definition lua_isuserdata :: "world \<Rightarrow> int \<Rightarrow> bool" where
  \<comment> \<open>true for a full and for a light userdata\<close>
  "lua_isuserdata w idx = (lua_type w idx = 7 \<or> lua_type w idx = 2)"

definition lua_islightuserdata :: "world \<Rightarrow> int \<Rightarrow> bool" where
  "lua_islightuserdata w idx = (lua_type w idx = 2)"

subsection \<open>The registry\<close>

text \<open>
  \<open>luaL_ref\<close> pops the top of the stack; for \<open>nil\<close> it returns \<open>LUA_REFNIL\<close> and stores
  nothing, otherwise it stores the value under a reference that no live entry uses (here:
  the lowest free one). \<open>luaL_unref\<close> frees the reference; for \<open>LUA_REFNIL\<close> and
  \<open>LUA_NOREF\<close> it does nothing. On an empty stack \<open>luaL_ref\<close> has no defined result.
\<close>

fun first_free :: "lua_value option list \<Rightarrow> nat" where
  "first_free [] = 0"
| "first_free (None # r) = 0"
| "first_free (Some v # r) = Suc (first_free r)"

definition store_at :: "nat \<Rightarrow> 'a \<Rightarrow> 'a list \<Rightarrow> 'a list" where
  "store_at i x xs = (if i < length xs then xs[i := x] else xs @ [x])"

definition luaL_ref :: "world \<Rightarrow> (int \<times> world) option" where
  "luaL_ref w =
     (if stack w = [] then None
      else if last (stack w) = LNil then Some (LUA_REFNIL, lua_pop 1 w)
      else let i = first_free (registry w) in
           Some (int i + 1,
                 (lua_pop 1 w)\<lparr>registry := store_at i (Some (last (stack w))) (registry w)\<rparr>))"

definition luaL_unref :: "int \<Rightarrow> world \<Rightarrow> world" where
  "luaL_unref r w =
     (if 0 < r \<and> nat (r - 1) < length (registry w)
      then w\<lparr>registry := (registry w)[nat (r - 1) := None]\<rparr>
      else w)"

definition registry_at :: "world \<Rightarrow> int \<Rightarrow> lua_value" where
  "registry_at w r =
     (if 0 < r \<and> nat (r - 1) < length (registry w)
      then (case registry w ! nat (r - 1) of None \<Rightarrow> LNil | Some v \<Rightarrow> v)
      else LNil)"

definition lua_rawgeti_registry :: "int \<Rightarrow> world \<Rightarrow> world" where
  "lua_rawgeti_registry r w = push (registry_at w r) w"

section \<open>The reference count (LuaVar.h, class RefCount)\<close>

text \<open>
  \<open>checks\<close> is the build: \<open>True\<close> without \<open>NDEBUG\<close> (\<open>BLEACHLUA_DEBUG_MODE 1\<close>,
  \<open>LUA_ASSERT\<close> is \<open>assert\<close>), \<open>False\<close> with it (\<open>LUA_ASSERT\<close> expands to nothing).
  \<open>LUA_ERROR\<close> writes to \<open>std::cerr\<close> in both.
\<close>

definition RefCount_new :: "world \<Rightarrow> nat \<times> world" where
  "RefCount_new w = (length (refcounts w), w\<lparr>refcounts := refcounts w @ [Some 1]\<rparr>)"

definition RefCount_at :: "world \<Rightarrow> nat \<Rightarrow> 64 word option" where
  "RefCount_at w p = (if p < length (refcounts w) then refcounts w ! p else None)"

definition Increment :: "nat \<Rightarrow> world \<Rightarrow> world option" where
  "Increment p w =
     (case RefCount_at w p of
        None \<Rightarrow> None
      | Some c \<Rightarrow> Some (w\<lparr>refcounts := (refcounts w)[p := Some (c + 1)]\<rparr>))"

definition Decrement :: "bool \<Rightarrow> nat \<Rightarrow> world \<Rightarrow> (bool \<times> world) option" where
  "Decrement checks p w =
     (case RefCount_at w p of
        None \<Rightarrow> None
      | Some c \<Rightarrow>
          if checks then
            (if c > 0
             then Some (c - 1 = 0, w\<lparr>refcounts := (refcounts w)[p := Some (c - 1)]\<rparr>)
             else Some (True,
                    LUA_ERROR ''Attempting to decrement ref count, but it's already 0.'' w))
          else Some (c - 1 = 0, w\<lparr>refcounts := (refcounts w)[p := Some (c - 1)]\<rparr>))"

definition RefCount_delete :: "nat \<Rightarrow> world \<Rightarrow> world" where
  "RefCount_delete p w = w\<lparr>refcounts := (refcounts w)[p := None]\<rparr>"

section \<open>The variable handle (LuaVar)\<close>

record LuaVar =
  m_pState :: LuaState_ptr
  m_pRefCount :: "nat option"
  m_reference :: int

definition LuaVar_default :: "world \<Rightarrow> LuaVar" where
  \<comment> \<open>\<open>LuaVar()\<close>: the default state, no reference\<close>
  "LuaVar_default w =
     \<lparr>m_pState = s_pDefaultLuaState w, m_pRefCount = None, m_reference = LUA_REFNIL\<rparr>"

definition LuaVar_ctor :: "LuaState_ptr \<Rightarrow> LuaVar" where
  \<comment> \<open>\<open>LuaVar(LuaState* pState)\<close>\<close>
  "LuaVar_ctor s = \<lparr>m_pState = s, m_pRefCount = None, m_reference = LUA_REFNIL\<rparr>"

definition IsValid :: "LuaVar \<Rightarrow> bool" where
  "IsValid v = (m_pState v \<noteq> NullState \<and> m_reference v \<noteq> LUA_REFNIL)"


definition ClearRef :: "bool \<Rightarrow> world \<Rightarrow> LuaVar \<Rightarrow> (world \<times> LuaVar) option" where
  "ClearRef checks w v =
     (if m_reference v \<noteq> LUA_REFNIL then
        (case m_pRefCount v of
           None \<Rightarrow> None
         | Some p \<Rightarrow> do {
             (zero, w1) \<leftarrow> Decrement checks p w;
             w2 \<leftarrow> (if zero
                    then (if m_pState v = NullState then None
                          else Some (RefCount_delete p (luaL_unref (m_reference v) w1)))
                    else Some w1);
             Some (w2, v\<lparr>m_reference := LUA_REFNIL, m_pRefCount := None\<rparr>)
           })
      else Some (w, v))"

definition LuaVar_dtor :: "bool \<Rightarrow> world \<Rightarrow> LuaVar \<Rightarrow> world option" where
  \<comment> \<open>\<open>~LuaVar()\<close>: the handle is gone afterwards, only the world remains\<close>
  "LuaVar_dtor checks w v = map_option fst (ClearRef checks w v)"

definition CreateRegisteryEntryFromStack ::
  "bool \<Rightarrow> world \<Rightarrow> LuaVar \<Rightarrow> (world \<times> LuaVar) option" where
  "CreateRegisteryEntryFromStack checks w v =
     (if checks \<and> m_pRefCount v \<noteq> None then None
      else if checks \<and> m_reference v \<noteq> LUA_REFNIL then None
      else if m_pState v = NullState then None
      else do {
        (r, w1) \<leftarrow> luaL_ref w;
        if r \<noteq> LUA_REFNIL
        then (let (p, w2) = RefCount_new w1
              in Some (w2, v\<lparr>m_reference := r, m_pRefCount := Some p\<rparr>))
        else Some (w1, v\<lparr>m_reference := r\<rparr>)
      })"

definition CreateFromStack :: "bool \<Rightarrow> LuaState_ptr \<Rightarrow> world \<Rightarrow> (world \<times> LuaVar) option" where
  "CreateFromStack checks s w = CreateRegisteryEntryFromStack checks w (LuaVar_ctor s)"

definition Copy :: "bool \<Rightarrow> world \<Rightarrow> LuaVar \<Rightarrow> LuaVar \<Rightarrow> (world \<times> LuaVar) option" where
  \<comment> \<open>\<open>this->Copy(right)\<close>; \<open>right\<close> is const and a different object\<close>
  "Copy checks w this right = do {
     (w1, this1) \<leftarrow> ClearRef checks w this;
     let this2 = this1\<lparr>m_pState := m_pState right, m_reference := m_reference right,
                       m_pRefCount := m_pRefCount right\<rparr>;
     w2 \<leftarrow> (case m_pRefCount this2 of None \<Rightarrow> Some w1 | Some p \<Rightarrow> Increment p w1);
     Some (w2, this2)
   }"

definition Move :: "bool \<Rightarrow> world \<Rightarrow> LuaVar \<Rightarrow> LuaVar \<Rightarrow> (world \<times> LuaVar \<times> LuaVar) option" where
  \<comment> \<open>\<open>this->Move(right)\<close>: the result is the world, \<open>this\<close> and \<open>right\<close> afterwards\<close>
  "Move checks w this right = do {
     (w1, this1) \<leftarrow> ClearRef checks w this;
     let this2 = this1\<lparr>m_pState := m_pState right, m_reference := m_reference right,
                       m_pRefCount := m_pRefCount right\<rparr>;
     let right2 = right\<lparr>m_pState := NullState, m_reference := LUA_REFNIL,
                        m_pRefCount := None\<rparr>;
     Some (w1, this2, right2)
   }"

definition PushValueToStack :: "LuaVar \<Rightarrow> bool \<Rightarrow> world \<Rightarrow> (bool \<times> world) option" where
  "PushValueToStack v allowNil w =
     (if IsValid v then Some (True, lua_rawgeti_registry (m_reference v) w)
      else if allowNil
      then (if m_pState v = NullState then None else Some (True, push LNil w))
      else Some (False, w))"

text \<open>
  The native values that cross the boundary. \<open>VInt\<close> holds the value of a C++ integer
  of any width (the cast to the 64-bit \<open>lua_Integer\<close> is \<open>signed_take_bit 63\<close>),
  \<open>VNum\<close> the value of a \<open>float\<close> or a \<open>double\<close> (which \<open>lua_Number\<close> keeps),
  \<open>VStr None\<close> is the null \<open>const char*\<close>, \<open>VNil\<close> is \<open>nullptr_t\<close>.
\<close>

datatype cvalue =
    VBool bool
  | VInt int
  | VNum real
  | VStr "string option"
  | VNil
  | VPtr cptr
  | VVar LuaVar

text \<open>
  \<open>StackHelpers::Push<Type>(pState, val)\<close>. The \<open>LuaVar\<close> overload takes its argument by
  value: the parameter is copy-constructed, pushed, and destroyed at the end of the call.
\<close>

fun Push :: "bool \<Rightarrow> LuaState_ptr \<Rightarrow> cvalue \<Rightarrow> world \<Rightarrow> world option" where
  "Push checks s (VVar v) w = do {
     (w1, val) \<leftarrow> Copy checks w (LuaVar_default w) v;
     (_, w2) \<leftarrow> PushValueToStack val True w1;
     LuaVar_dtor checks w2 val
   }"
| "Push checks NullState _ w = None"
| "Push checks TheState (VBool b) w = Some (push (LBoolean b) w)"
| "Push checks TheState (VInt i) w = Some (push (LInteger (signed_take_bit 63 i)) w)"
| "Push checks TheState (VNum r) w = Some (push (LNumber r) w)"
| "Push checks TheState (VStr s) w = Some (lua_pushstring s w)"
| "Push checks TheState VNil w = Some (push LNil w)"
| "Push checks TheState (VPtr p) w = Some (push (LLightUserData p) w)"

text \<open>
  \<open>LuaVar::SetValue<Type>\<close>: the generic version pushes and creates the registry entry;
  the \<open>nullptr_t\<close> specialization only clears the reference.
\<close>

fun SetValue :: "bool \<Rightarrow> world \<Rightarrow> LuaVar \<Rightarrow> cvalue \<Rightarrow> (world \<times> LuaVar) option" where
  "SetValue checks w v VNil = ClearRef checks w v"
| "SetValue checks w v val =
     (if checks \<and> m_pState v = NullState then None
      else do {
        w1 \<leftarrow> Push checks (m_pState v) val w;
        CreateRegisteryEntryFromStack checks w1 v
      })"

definition SetString :: "bool \<Rightarrow> world \<Rightarrow> LuaVar \<Rightarrow> string option \<Rightarrow> (world \<times> LuaVar) option" where
  "SetString checks w v val = SetValue checks w v (VStr val)"

definition SetNil :: "bool \<Rightarrow> world \<Rightarrow> LuaVar \<Rightarrow> (world \<times> LuaVar) option" where
  "SetNil checks w v = SetValue checks w v VNil"

definition SetBool :: "bool \<Rightarrow> world \<Rightarrow> LuaVar \<Rightarrow> bool \<Rightarrow> (world \<times> LuaVar) option" where
  "SetBool checks w v val = SetValue checks w v (VBool val)"

definition SetLightUserData :: "bool \<Rightarrow> world \<Rightarrow> LuaVar \<Rightarrow> cptr \<Rightarrow> (world \<times> LuaVar) option" where
  "SetLightUserData checks w v pVal = SetValue checks w v (VPtr pVal)"

definition SetInteger :: "bool \<Rightarrow> world \<Rightarrow> LuaVar \<Rightarrow> int \<Rightarrow> (world \<times> LuaVar) option" where
  "SetInteger checks w v val = SetValue checks w v (VInt val)"

definition SetNumber :: "bool \<Rightarrow> world \<Rightarrow> LuaVar \<Rightarrow> real \<Rightarrow> (world \<times> LuaVar) option" where
  "SetNumber checks w v val = SetValue checks w v (VNum val)"

definition lua_createtable :: "world \<Rightarrow> world" where
  \<comment> \<open>a new table has no metatable\<close>
  "lua_createtable w =
     push (LTable (length (tables w)))
       (w\<lparr>tables := tables w @ [[]],
          metatables := (metatables w)[length (tables w) := None]\<rparr>)"

definition CreateNewTable :: "bool \<Rightarrow> world \<Rightarrow> LuaVar \<Rightarrow> (world \<times> LuaVar) option" where
  "CreateNewTable checks w v =
     (if checks \<and> m_pState v = NullState then None
      else do {
        (w1, v1) \<leftarrow> ClearRef checks w v;
        if m_pState v1 = NullState then None
        else CreateRegisteryEntryFromStack checks (lua_createtable w1) v1
      })"

definition lua_newuserdata :: "world \<Rightarrow> nat \<times> world" where
  \<comment> \<open>a fresh block, pushed as a full userdata; its content is not initialised\<close>
  "lua_newuserdata w =
     (length (udata w), push (LUserData (length (udata w))) (w\<lparr>udata := udata w @ [NullPtr]\<rparr>))"

definition WrapObjectPtr :: "bool \<Rightarrow> world \<Rightarrow> LuaVar \<Rightarrow> cptr \<Rightarrow> (world \<times> LuaVar) option" where
  "WrapObjectPtr checks w v pPtr =
     (if checks \<and> m_pState v = NullState then None
      else if checks \<and> pPtr = NullPtr then None
      else do {
        (w1, v1) \<leftarrow> ClearRef checks w v;
        if m_pState v1 = NullState then None
        else (let (pUserData, w2) = lua_newuserdata w1;
                  w3 = w2\<lparr>udata := (udata w2)[pUserData := pPtr]\<rparr>
              in CreateRegisteryEntryFromStack checks w3 v1)
      })"

subsection \<open>Assignment operators\<close>

text \<open>
  \<open>operator=\<close> compares addresses (\<open>&right == this\<close>), so the handles live in a store of
  objects by address here.
\<close>

definition copy_assign ::
  "bool \<Rightarrow> world \<times> (nat \<Rightarrow> LuaVar) \<Rightarrow> nat \<Rightarrow> nat \<Rightarrow> (world \<times> (nat \<Rightarrow> LuaVar)) option" where
  "copy_assign checks st this right =
     (if right = this then Some st
      else do {
        (w1, t1) \<leftarrow> Copy checks (fst st) (snd st this) (snd st right);
        Some (w1, (snd st)(this := t1))
      })"

definition move_assign ::
  "bool \<Rightarrow> world \<times> (nat \<Rightarrow> LuaVar) \<Rightarrow> nat \<Rightarrow> nat \<Rightarrow> (world \<times> (nat \<Rightarrow> LuaVar)) option" where
  "move_assign checks st this right =
     (if right = this then Some st
      else do {
        (w1, t1, r1) \<leftarrow> Move checks (fst st) (snd st this) (snd st right);
        Some (w1, (snd st)(this := t1, right := r1))
      })"

subsection \<open>Comparison\<close>

datatype cmp_op = LUA_OPEQ | LUA_OPLT | LUA_OPLE

text \<open>
  \<open>lua_compare(L, index1, index2, op)\<close> is 1 if the value at \<open>index1\<close> satisfies \<open>op\<close> when
  compared with the value at \<open>index2\<close> (the first is the left operand of the Lua operator),
  0 otherwise and if an index is not valid. The operator itself, metamethods included, is
  the parameter \<open>prim\<close>; \<open>prim op a b = None\<close> is a runtime error.
\<close>

definition lua_compare ::
  "(cmp_op \<Rightarrow> lua_value \<Rightarrow> lua_value \<Rightarrow> bool option) \<Rightarrow> world \<Rightarrow> int \<Rightarrow> int \<Rightarrow> cmp_op \<Rightarrow> int option" where
  "lua_compare prim w index1 index2 op =
     (case (lua_at w index1, lua_at w index2) of
        (Some a, Some b) \<Rightarrow> map_option (\<lambda>r. if r then 1 else 0) (prim op a b)
      | _ \<Rightarrow> Some 0)"

definition CompareHelper ::
  "(cmp_op \<Rightarrow> lua_value \<Rightarrow> lua_value \<Rightarrow> bool option) \<Rightarrow> bool \<Rightarrow> world \<Rightarrow> LuaVar \<Rightarrow> LuaVar \<Rightarrow> cmp_op
     \<Rightarrow> (bool \<times> world) option" where
  "CompareHelper prim checks w this right op =
     (if checks \<and> m_pState this = NullState then None
      else do {
        (_, w1) \<leftarrow> PushValueToStack this True w;
        (_, w2) \<leftarrow> PushValueToStack right True w1;
        result \<leftarrow> lua_compare prim w2 (-1) (-2) op;
        Some (result = 1, lua_pop 2 w2)
      })"

definition op_eq ::
  "(cmp_op \<Rightarrow> lua_value \<Rightarrow> lua_value \<Rightarrow> bool option) \<Rightarrow> bool \<Rightarrow> world \<Rightarrow> LuaVar \<Rightarrow> LuaVar
     \<Rightarrow> (bool \<times> world) option" where
  "op_eq prim checks w this right = CompareHelper prim checks w this right LUA_OPEQ"

definition op_ne ::
  "(cmp_op \<Rightarrow> lua_value \<Rightarrow> lua_value \<Rightarrow> bool option) \<Rightarrow> bool \<Rightarrow> world \<Rightarrow> LuaVar \<Rightarrow> LuaVar
     \<Rightarrow> (bool \<times> world) option" where
  "op_ne prim checks w this right =
     map_option (\<lambda>(b, w'). (\<not> b, w')) (CompareHelper prim checks w this right LUA_OPEQ)"

definition op_lt ::
  "(cmp_op \<Rightarrow> lua_value \<Rightarrow> lua_value \<Rightarrow> bool option) \<Rightarrow> bool \<Rightarrow> world \<Rightarrow> LuaVar \<Rightarrow> LuaVar
     \<Rightarrow> (bool \<times> world) option" where
  "op_lt prim checks w this right = CompareHelper prim checks w this right LUA_OPLT"

definition op_le ::
  "(cmp_op \<Rightarrow> lua_value \<Rightarrow> lua_value \<Rightarrow> bool option) \<Rightarrow> bool \<Rightarrow> world \<Rightarrow> LuaVar \<Rightarrow> LuaVar
     \<Rightarrow> (bool \<times> world) option" where
  "op_le prim checks w this right = CompareHelper prim checks w this right LUA_OPLE"

definition op_gt ::
  "(cmp_op \<Rightarrow> lua_value \<Rightarrow> lua_value \<Rightarrow> bool option) \<Rightarrow> bool \<Rightarrow> world \<Rightarrow> LuaVar \<Rightarrow> LuaVar
     \<Rightarrow> (bool \<times> world) option" where
  "op_gt prim checks w this right =
     map_option (\<lambda>(b, w'). (\<not> b, w')) (CompareHelper prim checks w this right LUA_OPLE)"

definition op_ge ::
  "(cmp_op \<Rightarrow> lua_value \<Rightarrow> lua_value \<Rightarrow> bool option) \<Rightarrow> bool \<Rightarrow> world \<Rightarrow> LuaVar \<Rightarrow> LuaVar
     \<Rightarrow> (bool \<times> world) option" where
  "op_ge prim checks w this right =
     map_option (\<lambda>(b, w'). (\<not> b, w')) (CompareHelper prim checks w this right LUA_OPLT)"

text \<open>
  The comparison operators of Lua on values without metamethods: numbers by value,
  strings in the order of their bytes, everything else by identity for \<open>==\<close> and a
  runtime error for \<open><\<close> and \<open><=\<close>.
\<close>

fun str_less :: "string \<Rightarrow> string \<Rightarrow> bool" where
  "str_less [] [] = False"
| "str_less [] (y # ys) = True"
| "str_less (x # xs) [] = False"
| "str_less (x # xs) (y # ys) =
     ((of_char x :: nat) < of_char y \<or> (x = y \<and> str_less xs ys))"

fun number_of :: "lua_value \<Rightarrow> real option" where
  "number_of (LInteger i) = Some (real_of_int i)"
| "number_of (LNumber r) = Some r"
| "number_of _ = None"

definition raw_op :: "cmp_op \<Rightarrow> lua_value \<Rightarrow> lua_value \<Rightarrow> bool option" where
  "raw_op op a b =
     (case (number_of a, number_of b) of
        (Some x, Some y) \<Rightarrow>
          Some (case op of LUA_OPEQ \<Rightarrow> x = y | LUA_OPLT \<Rightarrow> x < y | LUA_OPLE \<Rightarrow> x \<le> y)
      | _ \<Rightarrow>
          (case (a, b) of
             (LString s, LString t) \<Rightarrow>
               Some (case op of LUA_OPEQ \<Rightarrow> s = t | LUA_OPLT \<Rightarrow> str_less s t
                     | LUA_OPLE \<Rightarrow> s = t \<or> str_less s t)
           | _ \<Rightarrow> (case op of LUA_OPEQ \<Rightarrow> Some (a = b) | _ \<Rightarrow> None)))"

definition value_of :: "world \<Rightarrow> LuaVar \<Rightarrow> lua_value" where
  \<comment> \<open>the Lua value a handle stands for: what \<open>PushValueToStack\<close> pushes\<close>
  "value_of w v = (if IsValid v then registry_at w (m_reference v) else LNil)"

definition paired :: "LuaVar \<Rightarrow> bool" where
  \<comment> \<open>the registry slot is live exactly when there is a reference count object\<close>
  "paired v = ((m_reference v \<noteq> LUA_REFNIL) = (m_pRefCount v \<noteq> None))"

definition empty_world :: world where
  \<comment> \<open>a fresh runtime, set as the default state\<close>
  "empty_world =
     \<lparr>stack = [], registry = [], tables = [], metatables = [], udata = [], refcounts = [],
      cerr = [], s_pDefaultLuaState = TheState\<rparr>"

section \<open>The marshalling layer (StackHelpers.h)\<close>

text \<open>
  What is left to the runtime and to the platform, as parameters:
  \<open>l_strton\<close> reads a string as a numeral (an \<open>LInteger\<close> or an \<open>LNumber\<close>, \<open>None\<close> if it
  is none) and \<open>tostringbuff\<close> prints a number;
  \<open>to_double\<close> is the conversion of an integer to \<open>lua_Number\<close> (a \<open>double\<close>) and
  \<open>to_float\<close> that of a \<open>double\<close> to \<open>float\<close>, where the value cannot be kept: the
  implementation chooses one of the two neighbours, and the behaviour is undefined out of
  range;
  \<open>luaT_callTM tm t k\<close> calls the function \<open>tm\<close>, an \<open>__index\<close> handler, with \<open>t\<close> and \<open>k\<close>,
  and \<open>index_other t k\<close> indexes a value \<open>t\<close> that is no table (through the metatable of a
  userdata or of a type, or raising an error): both run code of the script or of the
  runtime and give the result and the world afterwards, \<open>None\<close> if they raise.
\<close>

record lua_conv =
  l_strton :: "string \<Rightarrow> lua_value option"
  tostringbuff :: "lua_value \<Rightarrow> string"
  to_double :: "int \<Rightarrow> real"
  to_float :: "real \<Rightarrow> real"
  luaT_callTM :: "lua_value \<Rightarrow> lua_value \<Rightarrow> lua_value \<Rightarrow> world \<Rightarrow> (lua_value \<times> world) option"
  index_other :: "lua_value \<Rightarrow> lua_value \<Rightarrow> world \<Rightarrow> (lua_value \<times> world) option"

text \<open>
  A conversion between arithmetic types keeps a value that the target type can hold. A
  \<open>double\<close> holds every integer of magnitude up to 2 to the power 53 and a \<open>float\<close> every
  integer of magnitude up to 2 to the power 24; \<open>double\<close> and \<open>long double\<close> hold every
  \<open>lua_Number\<close>.
\<close>

datatype float_type = CFloat | CDouble | CLongDouble

definition cast_num :: "lua_conv \<Rightarrow> int \<Rightarrow> real" where
  \<comment> \<open>\<open>cast_num(i)\<close>, the \<open>lua_Number\<close> of a \<open>lua_Integer\<close>\<close>
  "cast_num cv i = (if \<bar>i\<bar> \<le> 2 ^ 53 then real_of_int i else to_double cv i)"

definition static_cast_float :: "lua_conv \<Rightarrow> float_type \<Rightarrow> real \<Rightarrow> real" where
  \<comment> \<open>\<open>static_cast<Type>\<close> of a \<open>lua_Number\<close> to a floating-point type\<close>
  "static_cast_float cv F x =
     (case F of
        CFloat \<Rightarrow> (if x = real_of_int \<lfloor>x\<rfloor> \<and> \<bar>x\<bar> \<le> 2 ^ 24 then x else to_float cv x)
      | CDouble \<Rightarrow> x
      | CLongDouble \<Rightarrow> x)"

definition flt_tointeger :: "real \<Rightarrow> int option" where
  \<comment> \<open>a float converts to an integer only if it has an integral value in range\<close>
  "flt_tointeger r =
     (if r = of_int \<lfloor>r\<rfloor> \<and> - (2 ^ 63) \<le> \<lfloor>r\<rfloor> \<and> \<lfloor>r\<rfloor> < 2 ^ 63 then Some \<lfloor>r\<rfloor> else None)"

fun num_tointeger :: "lua_value \<Rightarrow> int option" where
  "num_tointeger (LInteger i) = Some i"
| "num_tointeger (LNumber r) = flt_tointeger r"
| "num_tointeger _ = None"

fun cvt2num :: "lua_conv \<Rightarrow> lua_value \<Rightarrow> lua_value option" where
  "cvt2num cv (LInteger i) = Some (LInteger i)"
| "cvt2num cv (LNumber r) = Some (LNumber r)"
| "cvt2num cv (LString s) =
     (case l_strton cv s of
        Some (LInteger i) \<Rightarrow> Some (LInteger i)
      | Some (LNumber r) \<Rightarrow> Some (LNumber r)
      | _ \<Rightarrow> None)"
| "cvt2num cv _ = None"

definition lua_tointegerx :: "lua_conv \<Rightarrow> world \<Rightarrow> int \<Rightarrow> int option" where
  \<comment> \<open>\<open>None\<close>: the conversion failed (\<open>*isnum = 0\<close>)\<close>
  "lua_tointegerx cv w idx =
     (case lua_at w idx of
        None \<Rightarrow> None
      | Some v \<Rightarrow> (case cvt2num cv v of None \<Rightarrow> None | Some n \<Rightarrow> num_tointeger n))"

definition lua_isnumber :: "lua_conv \<Rightarrow> world \<Rightarrow> int \<Rightarrow> bool" where
  "lua_isnumber cv w idx =
     (case lua_at w idx of None \<Rightarrow> False | Some v \<Rightarrow> cvt2num cv v \<noteq> None)"

definition lua_tonumber :: "lua_conv \<Rightarrow> world \<Rightarrow> int \<Rightarrow> real" where
  "lua_tonumber cv w idx =
     (case lua_at w idx of
        None \<Rightarrow> 0
      | Some v \<Rightarrow>
          (case cvt2num cv v of
             Some (LInteger i) \<Rightarrow> cast_num cv i
           | Some (LNumber r) \<Rightarrow> r
           | _ \<Rightarrow> 0))"

definition lua_isinteger :: "world \<Rightarrow> int \<Rightarrow> bool" where
  "lua_isinteger w idx = (case lua_at w idx of Some (LInteger i) \<Rightarrow> True | _ \<Rightarrow> False)"

definition lua_isstring :: "world \<Rightarrow> int \<Rightarrow> bool" where
  "lua_isstring w idx = (lua_type w idx = 4 \<or> lua_type w idx = 3)"

definition lua_toboolean :: "world \<Rightarrow> int \<Rightarrow> bool" where
  \<comment> \<open>false for \<open>false\<close>, \<open>nil\<close> and "no value", true for every other value\<close>
  "lua_toboolean w idx =
     (case lua_at w idx of
        None \<Rightarrow> False
      | Some LNil \<Rightarrow> False
      | Some (LBoolean b) \<Rightarrow> b
      | Some _ \<Rightarrow> True)"

definition lua_tostring :: "lua_conv \<Rightarrow> world \<Rightarrow> int \<Rightarrow> string option \<times> world" where
  \<comment> \<open>a number is converted to a string in place, in the stack\<close>
  "lua_tostring cv w idx =
     (case stack_pos w idx of
        None \<Rightarrow> (None, w)
      | Some i \<Rightarrow>
          (case stack w ! i of
             LString s \<Rightarrow> (Some s, w)
           | LInteger n \<Rightarrow>
               (Some (tostringbuff cv (LInteger n)),
                w\<lparr>stack := (stack w)[i := LString (tostringbuff cv (LInteger n))]\<rparr>)
           | LNumber r \<Rightarrow>
               (Some (tostringbuff cv (LNumber r)),
                w\<lparr>stack := (stack w)[i := LString (tostringbuff cv (LNumber r))]\<rparr>)
           | _ \<Rightarrow> (None, w)))"

definition lua_touserdata :: "world \<Rightarrow> int \<Rightarrow> cptr" where
  \<comment> \<open>the block address of a full userdata, the pointer of a light one, else \<open>NULL\<close>\<close>
  "lua_touserdata w idx =
     (case lua_at w idx of
        Some (LUserData a) \<Rightarrow> BlockPtr a
      | Some (LLightUserData p) \<Rightarrow> p
      | _ \<Rightarrow> NullPtr)"

text \<open>
  The C++ types the templates dispatch on: \<open>bool\<close>; an integral type other than
  \<open>lua_Unsigned\<close>, with its width and signedness (\<open>IsLuaTrueInteger\<close>); \<open>lua_Unsigned\<close>;
  a floating-point type (\<open>lua_Number\<close> is \<open>TNumber CDouble\<close>, \<open>LuaFloat\<close> is
  \<open>TNumber CFloat\<close>); \<open>const char*\<close>; \<open>void*\<close>; \<open>LuaVar\<close>.
\<close>

datatype ctype =
  TBool | TInteger nat bool | TUnsigned | TNumber float_type | TString | TUserData | TLuaVar

definition static_cast_int :: "nat \<Rightarrow> bool \<Rightarrow> int \<Rightarrow> int" where
  \<comment> \<open>\<open>static_cast<Type>\<close> of a \<open>lua_Integer\<close> to an integral type of \<open>bits\<close> bits\<close>
  "static_cast_int bits isSigned i = (if isSigned then signed_take_bit (bits - 1) i else take_bit bits i)"

fun GetDefault :: "ctype \<Rightarrow> world \<Rightarrow> cvalue" where
  "GetDefault TBool w = VBool False"
| "GetDefault (TInteger bits isSigned) w = VInt 0"
| "GetDefault TUnsigned w = VInt 0"
| "GetDefault (TNumber F) w = VNum 0"
| "GetDefault TString w = VStr None"
| "GetDefault TUserData w = VPtr NullPtr"
| "GetDefault TLuaVar w = VVar (LuaVar_default w)"

fun zero_init :: "ctype \<Rightarrow> world \<Rightarrow> cvalue" where
  \<comment> \<open>\<open>Type{}\<close>: value initialisation\<close>
  "zero_init TBool w = VBool False"
| "zero_init (TInteger bits isSigned) w = VInt 0"
| "zero_init TUnsigned w = VInt 0"
| "zero_init (TNumber F) w = VNum 0"
| "zero_init TString w = VStr None"
| "zero_init TUserData w = VPtr NullPtr"
| "zero_init TLuaVar w = VVar (LuaVar_default w)"

fun Get :: "lua_conv \<Rightarrow> bool \<Rightarrow> ctype \<Rightarrow> LuaState_ptr \<Rightarrow> int \<Rightarrow> world \<Rightarrow> (cvalue \<times> world) option" where
  "Get cv checks T NullState stackIndex w = None"
| "Get cv checks TBool TheState stackIndex w = Some (VBool (lua_toboolean w stackIndex), w)"
| "Get cv checks (TInteger bits isSigned) TheState stackIndex w =
     (case lua_tointegerx cv w stackIndex of
        None \<Rightarrow>
          Some (GetDefault (TInteger bits isSigned) w,
                LUA_ERROR (''Failed to convert value to integer.  Type is ''
                           @ lua_typename (lua_type w (-1))) w)
      | Some i \<Rightarrow> Some (VInt (static_cast_int bits isSigned i), w))"
| "Get cv checks TUnsigned TheState stackIndex w =
     (case lua_tointegerx cv w stackIndex of
        None \<Rightarrow>
          Some (GetDefault TUnsigned w,
                if checks then
                  (if lua_isnumber cv w stackIndex then
                     (if lua_tonumber cv w stackIndex
                           - of_int \<lfloor>lua_tonumber cv w stackIndex\<rfloor> = 0
                      then LUA_ERROR ''You've passed in a value to Get() that's greater than the max size allowed by a signed 64-bit int.  Lua doesn't support unsigned 64-bit ints, so you must convert this to a signed int first.  It will be converted back to an unsigned int when passed into C++.'' w
                      else w)
                   else LUA_ERROR (''Failed to convert value to uint64_t.  Type is ''
                                   @ lua_typename (lua_type w (-1))) w)
                else w)
      | Some i \<Rightarrow> Some (VInt (take_bit 64 i), w))"
| "Get cv checks (TNumber F) TheState stackIndex w =
     Some (VNum (static_cast_float cv F (lua_tonumber cv w stackIndex)), w)"
| "Get cv checks TString TheState stackIndex w =
     (let (s, w1) = lua_tostring cv w stackIndex in Some (VStr (map_option c_str s), w1))"
| "Get cv checks TUserData TheState stackIndex w = Some (VPtr (lua_touserdata w stackIndex), w)"
| "Get cv checks TLuaVar TheState stackIndex w = do {
     (w1, v) \<leftarrow> CreateFromStack checks TheState (lua_pushvalue stackIndex w);
     Some (VVar v, w1)
   }"

fun Is :: "lua_conv \<Rightarrow> bool \<Rightarrow> ctype \<Rightarrow> LuaState_ptr \<Rightarrow> int \<Rightarrow> world \<Rightarrow> (bool \<times> world) option" where
  "Is cv checks TLuaVar s stackIndex w = Some (True, w)"
| "Is cv checks T NullState stackIndex w = None"
| "Is cv checks TBool TheState stackIndex w = Some (lua_isboolean w stackIndex, w)"
| "Is cv checks (TInteger bits isSigned) TheState stackIndex w = Some (lua_isinteger w stackIndex, w)"
| "Is cv checks TUnsigned TheState stackIndex w =
     (if lua_isinteger w stackIndex then Some (True, w)
      else if checks \<and> lua_isnumber cv w stackIndex
              \<and> lua_tonumber cv w stackIndex - of_int \<lfloor>lua_tonumber cv w stackIndex\<rfloor> = 0
      then Some (False, LUA_ERROR ''You've passed in a value to Is() that's greater than the max size allowed by a signed 64-bit int.  Lua doesn't support unsigned 64-bit ints, so you must convert this to a signed int first.  It will be converted back to an unsigned int when passed into C++.'' w)
      else Some (False, w))"
| "Is cv checks (TNumber F) TheState stackIndex w = Some (lua_isnumber cv w stackIndex, w)"
| "Is cv checks TString TheState stackIndex w = Some (lua_isstring w stackIndex, w)"
| "Is cv checks TUserData TheState stackIndex w =
     Some (lua_islightuserdata w stackIndex \<or> lua_isuserdata w stackIndex, w)"

section \<open>Acting on a handle's value (LuaVar::DoLuaAction and its users)\<close>

text \<open>
  \<open>DoLuaAction(func, allowNil)\<close> pushes the handle's value, runs \<open>func\<close> and pops; when
  nothing was pushed it returns the zero-initialised value \<open>zero\<close> of the return type.
\<close>

definition DoLuaAction ::
  "bool \<Rightarrow> LuaVar \<Rightarrow> (world \<Rightarrow> ('a \<times> world) option) \<Rightarrow> 'a \<Rightarrow> bool \<Rightarrow> world \<Rightarrow> ('a \<times> world) option" where
  "DoLuaAction checks v func zero allowNil w =
     (if checks \<and> m_pState v = NullState then None
      else do {
        (pushed, w1) \<leftarrow> PushValueToStack v allowNil w;
        if \<not> pushed then Some (zero, w1)
        else do {
          (ret, w2) \<leftarrow> func w1;
          if m_pState v = NullState then None else Some (ret, lua_pop 1 w2)
        }
      })"

definition IsFunction :: "bool \<Rightarrow> LuaVar \<Rightarrow> world \<Rightarrow> (bool \<times> world) option" where
  "IsFunction checks v w =
     DoLuaAction checks v (\<lambda>w1. Some (lua_isfunction w1 (-1), w1)) False False w"

definition IsTable :: "bool \<Rightarrow> LuaVar \<Rightarrow> world \<Rightarrow> (bool \<times> world) option" where
  "IsTable checks v w =
     DoLuaAction checks v (\<lambda>w1. Some (lua_istable w1 (-1), w1)) False False w"

definition GetTypeName :: "bool \<Rightarrow> LuaVar \<Rightarrow> world \<Rightarrow> (string option \<times> world) option" where
  \<comment> \<open>\<open>None\<close> inside is the null \<open>const char*\<close>\<close>
  "GetTypeName checks v w =
     DoLuaAction checks v (\<lambda>w1. Some (Some (lua_typename (lua_type w1 (-1))), w1)) None True w"

definition GetTypeNameStr :: "bool \<Rightarrow> LuaVar \<Rightarrow> world \<Rightarrow> (string \<times> world) option" where
  \<comment> \<open>a \<open>luastl::string\<close> cannot be built from a null pointer\<close>
  "GetTypeNameStr checks v w = do {
     (name, w1) \<leftarrow> GetTypeName checks v w;
     case name of None \<Rightarrow> None | Some s \<Rightarrow> Some (s, w1)
   }"

definition GetValue :: "lua_conv \<Rightarrow> bool \<Rightarrow> ctype \<Rightarrow> LuaVar \<Rightarrow> world \<Rightarrow> (cvalue \<times> world) option" where
  "GetValue cv checks T v w =
     (if checks \<and> m_pState v = NullState then None
      else if checks \<and> m_reference v = LUA_REFNIL then None
      else DoLuaAction checks v (Get cv checks T (m_pState v) (-1)) (zero_init T w) False w)"

definition GetBool :: "lua_conv \<Rightarrow> bool \<Rightarrow> LuaVar \<Rightarrow> world \<Rightarrow> (cvalue \<times> world) option" where
  "GetBool cv checks v w = GetValue cv checks TBool v w"

definition GetString :: "lua_conv \<Rightarrow> bool \<Rightarrow> LuaVar \<Rightarrow> world \<Rightarrow> (cvalue \<times> world) option" where
  "GetString cv checks v w = GetValue cv checks TString v w"

definition GetLightUserData :: "lua_conv \<Rightarrow> bool \<Rightarrow> LuaVar \<Rightarrow> world \<Rightarrow> (cvalue \<times> world) option" where
  "GetLightUserData cv checks v w = GetValue cv checks TUserData v w"

fun cast_result :: "nat \<Rightarrow> bool \<Rightarrow> cvalue \<Rightarrow> cvalue" where
  "cast_result bits isSigned (VInt i) = VInt (static_cast_int bits isSigned i)"
| "cast_result bits isSigned x = x"

definition GetInteger ::
  "lua_conv \<Rightarrow> bool \<Rightarrow> nat \<Rightarrow> bool \<Rightarrow> LuaVar \<Rightarrow> world \<Rightarrow> (cvalue \<times> world) option" where
  \<comment> \<open>\<open>static_cast<IntType>(GetValue<lua_Integer>())\<close>, \<open>IntType\<close> of \<open>bits\<close> bits\<close>
  "GetInteger cv checks bits isSigned v w =
     map_option (\<lambda>(x, w'). (cast_result bits isSigned x, w')) (GetValue cv checks (TInteger 64 True) v w)"

fun cast_float_result :: "lua_conv \<Rightarrow> float_type \<Rightarrow> cvalue \<Rightarrow> cvalue" where
  "cast_float_result cv F (VNum x) = VNum (static_cast_float cv F x)"
| "cast_float_result cv F x = x"

definition GetNumber ::
  "lua_conv \<Rightarrow> bool \<Rightarrow> float_type \<Rightarrow> LuaVar \<Rightarrow> world \<Rightarrow> (cvalue \<times> world) option" where
  \<comment> \<open>\<open>static_cast<FloatType>(GetValue<lua_Number>())\<close>\<close>
  "GetNumber cv checks F v w =
     map_option (\<lambda>(x, w'). (cast_float_result cv F x, w')) (GetValue cv checks (TNumber CDouble) v w)"

section \<open>The callable wrapper (LuaFunction.h, LuaFunction.cpp)\<close>

text \<open>
  \<open>lua_pcall(L, nargs, nresults, msgh)\<close> runs script code; it is a parameter here: from the
  argument count, the result count, the handler's index and the world it gives the status
  and the world afterwards.
\<close>

type_synonym pcall_prim = "nat \<Rightarrow> nat \<Rightarrow> int \<Rightarrow> world \<Rightarrow> int \<times> world"

definition LUA_OK :: int where
  "LUA_OK = 0"

definition OnLuaException_fn :: nat where
  \<comment> \<open>the C function \<open>BaseLuaFunction::OnLuaException\<close>, as a function value\<close>
  "OnLuaException_fn = 0"

definition GetExceptionHandlerStackOffset :: "nat \<Rightarrow> int" where
  "GetExceptionHandlerStackOffset numArgs = - (int (numArgs + 2))"

definition LuaFunction_ctor :: "bool \<Rightarrow> LuaVar \<Rightarrow> world \<Rightarrow> (LuaVar \<times> world) option" where
  \<comment> \<open>\<open>m_functionVar(functionVar)\<close>, then \<open>LUA_ASSERT(m_functionVar.IsFunction())\<close>\<close>
  "LuaFunction_ctor checks functionVar w = do {
     (w1, m_functionVar) \<leftarrow> Copy checks w (LuaVar_default w) functionVar;
     if checks
     then do {
       (isf, w2) \<leftarrow> IsFunction checks m_functionVar w1;
       if isf then Some (m_functionVar, w2) else None
     }
     else Some (m_functionVar, w1)
   }"

definition CheckFunctionVar :: "bool \<Rightarrow> LuaVar \<Rightarrow> world \<Rightarrow> (bool \<times> world) option" where
  "CheckFunctionVar checks m_functionVar w = do {
     (isf, w1) \<leftarrow> IsFunction checks m_functionVar w;
     if \<not> isf
     then Some (False, LUA_ERROR ''Attempting to call invalid Lua function.'' w1)
     else Some (True, w1)
   }"

fun PushArguments :: "bool \<Rightarrow> LuaVar \<Rightarrow> cvalue list \<Rightarrow> world \<Rightarrow> world option" where
  "PushArguments checks m_functionVar [] w = Some w"
| "PushArguments checks m_functionVar (arg # remainingArgs) w = do {
     w1 \<leftarrow> Push checks (m_pState m_functionVar) arg w;
     PushArguments checks m_functionVar remainingArgs w1
   }"

definition report_top :: "lua_conv \<Rightarrow> world \<Rightarrow> world" where
  \<comment> \<open>\<open>LUA_ERROR(lua_tostring(pState, -1))\<close>\<close>
  "report_top cv w =
     (let (msg, w1) = lua_tostring cv w (-1)
      in LUA_ERROR (case msg of None \<Rightarrow> [] | Some s \<Rightarrow> s) w1)"

text \<open>
  \<open>LuaFunction<RetType>::operator()(Args... args)\<close> for a non-void \<open>RetType\<close>. The
  \<open>StackResetter\<close> sets the top back to \<open>oldTop\<close> on every path after its construction.
\<close>

definition call_args ::
  "lua_conv \<Rightarrow> pcall_prim \<Rightarrow> bool \<Rightarrow> ctype \<Rightarrow> LuaVar \<Rightarrow> cvalue list \<Rightarrow> world
     \<Rightarrow> (cvalue \<times> world) option" where
  "call_args cv pcall checks RetType m_functionVar args w = do {
     (ok, w1) \<leftarrow> CheckFunctionVar checks m_functionVar w;
     if \<not> ok then Some (GetDefault RetType w1, w1)
     else if m_pState m_functionVar = NullState then None
     else do {
       let oldTop = lua_gettop w1;
       let w2 = push (LCFunction OnLuaException_fn) w1;
       (_, w3) \<leftarrow> PushValueToStack m_functionVar True w2;
       w4 \<leftarrow> PushArguments checks m_functionVar args w3;
       let (result, w5) =
             pcall (length args) 1 (GetExceptionHandlerStackOffset (length args)) w4;
       if result \<noteq> LUA_OK
       then (let w6 = report_top cv w5
             in Some (GetDefault RetType w6, lua_settop oldTop w6))
       else do {
         (ret, w6) \<leftarrow> Get cv checks RetType (m_pState m_functionVar) (-1) w5;
         Some (ret, lua_settop oldTop w6)
       }
     }
   }"

text \<open>\<open>LuaFunction<RetType>::operator()()\<close> for a non-void \<open>RetType\<close>.\<close>

definition call0 ::
  "lua_conv \<Rightarrow> pcall_prim \<Rightarrow> bool \<Rightarrow> ctype \<Rightarrow> LuaVar \<Rightarrow> world \<Rightarrow> (cvalue \<times> world) option" where
  "call0 cv pcall checks RetType m_functionVar w = do {
     (ok, w1) \<leftarrow> CheckFunctionVar checks m_functionVar w;
     if \<not> ok then Get cv checks RetType (m_pState m_functionVar) (-1) w1
     else if m_pState m_functionVar = NullState then None
     else do {
       let oldTop = lua_gettop w1;
       let w2 = push (LCFunction OnLuaException_fn) w1;
       (_, w3) \<leftarrow> PushValueToStack m_functionVar True w2;
       let (result, w4) = pcall 0 1 (-2) w3;
       if result \<noteq> LUA_OK
       then (let w5 = report_top cv w4
             in Some (GetDefault RetType w5, lua_settop oldTop w5))
       else do {
         (ret, w5) \<leftarrow> Get cv checks RetType (m_pState m_functionVar) (-1) w4;
         Some (ret, lua_settop oldTop w5)
       }
     }
   }"

text \<open>\<open>LuaFunction<void>::operator()(Args... args)\<close>.\<close>

definition call_args_void ::
  "lua_conv \<Rightarrow> pcall_prim \<Rightarrow> bool \<Rightarrow> LuaVar \<Rightarrow> cvalue list \<Rightarrow> world \<Rightarrow> world option" where
  "call_args_void cv pcall checks m_functionVar args w = do {
     (ok, w1) \<leftarrow> CheckFunctionVar checks m_functionVar w;
     if \<not> ok then Some w1
     else if m_pState m_functionVar = NullState then None
     else do {
       let oldTop = lua_gettop w1;
       let w2 = push (LCFunction OnLuaException_fn) w1;
       (_, w3) \<leftarrow> PushValueToStack m_functionVar True w2;
       w4 \<leftarrow> PushArguments checks m_functionVar args w3;
       let (result, w5) =
             pcall (length args) 0 (GetExceptionHandlerStackOffset (length args)) w4;
       Some (lua_settop oldTop (if result \<noteq> LUA_OK then report_top cv w5 else w5))
     }
   }"

text \<open>\<open>LuaFunction<void>::operator()()\<close> (LuaFunction.cpp): no resetter, the pops are by hand.\<close>

definition call0_void ::
  "lua_conv \<Rightarrow> pcall_prim \<Rightarrow> bool \<Rightarrow> LuaVar \<Rightarrow> world \<Rightarrow> world option" where
  "call0_void cv pcall checks m_functionVar w = do {
     (ok, w1) \<leftarrow> CheckFunctionVar checks m_functionVar w;
     if \<not> ok then Some w1
     else if m_pState m_functionVar = NullState then None
     else do {
       let w2 = push (LCFunction OnLuaException_fn) w1;
       (_, w3) \<leftarrow> PushValueToStack m_functionVar True w2;
       let (result, w4) = pcall 0 0 (-2) w3;
       Some (lua_pop 1 (if result \<noteq> LUA_OK then lua_pop 1 (report_top cv w4) else w4))
     }
   }"

text \<open>
  Instances for closed examples: a runtime in which no string reads as a numeral (the
  examples convert no strings), and a protected call that fails at once, leaving an error
  message in place of the function.
\<close>

text \<open>
  The conversions of an IEEE 754 platform in its default rounding mode, for the examples:
  \<open>ieee_round p k x\<close> is the value nearest to \<open>x\<close> that has a mantissa of \<open>p\<close> bits and is
  a multiple of 2 to the power \<open>-k\<close>, the even one of two that are equally near (\<open>float\<close>:
  24 and 149, \<open>double\<close>: 53 and 1074). There is no overflow here: the conversion of a
  value out of the range of the target type is undefined.
\<close>

function bit_length :: "int \<Rightarrow> nat" where
  "bit_length n = (if n \<le> 0 then 0 else Suc (bit_length (n div 2)))"
  by pat_completeness auto
termination
  by (relation "measure nat") auto

definition round_half_even :: "real \<Rightarrow> int" where
  "round_half_even q =
     (let f = \<lfloor>q\<rfloor>; d = q - real_of_int f in
      if d < 1 / 2 then f else if 1 / 2 < d then f + 1 else if even f then f else f + 1)"

definition ieee_round :: "nat \<Rightarrow> nat \<Rightarrow> real \<Rightarrow> real" where
  "ieee_round p k x =
     (let y = \<bar>x\<bar> * 2 ^ k;
          e = bit_length \<lfloor>y\<rfloor> - p;
          m = round_half_even (y / 2 ^ e)
      in sgn x * (real_of_int m * 2 ^ e / 2 ^ k))"

definition no_numerals :: lua_conv where
  \<comment> \<open>a runtime that reads no string as a numeral and prints every number as the empty
     string, on an IEEE 754 platform; every \<open>__index\<close> function raises an error, and so does
     indexing a value that is no table\<close>
  "no_numerals =
     \<lparr>l_strton = (\<lambda>s. None), tostringbuff = (\<lambda>v. []),
      to_double = (\<lambda>i. ieee_round 53 1074 (real_of_int i)), to_float = ieee_round 24 149,
      luaT_callTM = (\<lambda>tm t k w. None), index_other = (\<lambda>t k w. None)\<rparr>"

definition failing_pcall :: pcall_prim where
  "failing_pcall nargs nresults msgh w = (2, push (LString ''error'') (lua_pop (Suc nargs) w))"

text \<open>
  When the runtime can convert a value to a C++ type: what \<open>lua_tointegerx\<close>,
  \<open>lua_isnumber\<close>, \<open>lua_isstring\<close> and \<open>lua_isuserdata\<close> accept; for \<open>bool\<close>, a boolean.
\<close>

fun convertible :: "lua_conv \<Rightarrow> ctype \<Rightarrow> lua_value \<Rightarrow> bool" where
  "convertible cv TBool v = (type_tag v = 1)"
| "convertible cv (TInteger bits isSigned) v =
     (case cvt2num cv v of None \<Rightarrow> False | Some n \<Rightarrow> num_tointeger n \<noteq> None)"
| "convertible cv TUnsigned v =
     (case cvt2num cv v of None \<Rightarrow> False | Some n \<Rightarrow> num_tointeger n \<noteq> None)"
| "convertible cv (TNumber F) v = (cvt2num cv v \<noteq> None)"
| "convertible cv TString v = (type_tag v = 4 \<or> type_tag v = 3)"
| "convertible cv TUserData v = (type_tag v = 7 \<or> type_tag v = 2)"
| "convertible cv TLuaVar v = True"

definition table_world :: world where
  \<comment> \<open>the world after \<open>LuaVar t(pState); t.CreateNewTable();\<close> in a fresh runtime\<close>
  "table_world = empty_world\<lparr>registry := [Some (LTable 0)], tables := [[]], refcounts := [Some 1]\<rparr>"

definition table_handle :: LuaVar where
  "table_handle = \<lparr>m_pState = TheState, m_pRefCount = Some 0, m_reference = 1\<rparr>"

section \<open>Native function binding: rebuilding the arguments (LuaVar.h)\<close>

text \<open>
  \<open>ProcessArg<kTupleIndex, kParamIndex, TupleType, Arg, Args...>\<close> recurses over the
  declared parameter types; the tuple is a list here, and assigning to
  \<open>luastl::get<kTupleIndex>(tupleToFill)\<close> replaces that position (for a \<open>LuaVar\<close> the
  position held a default-constructed handle, so the move assignment releases nothing).
\<close>

fun ProcessArg ::
  "lua_conv \<Rightarrow> bool \<Rightarrow> LuaState_ptr \<Rightarrow> nat \<Rightarrow> nat \<Rightarrow> ctype list \<Rightarrow> cvalue list \<Rightarrow> nat \<Rightarrow> world
     \<Rightarrow> (cvalue list \<times> world) option" where
  "ProcessArg cv checks pState kTupleIndex kParamIndex [] tupleToFill numArgs w =
     Some (tupleToFill, w)"
| "ProcessArg cv checks pState kTupleIndex kParamIndex (ArgT # Args) tupleToFill numArgs w = do {
     (x, w1) \<leftarrow> (if kTupleIndex < numArgs
                  then Get cv checks ArgT pState (int kParamIndex) w
                  else Some (GetDefault ArgT w, w));
     ProcessArg cv checks pState (kTupleIndex + 1) (kParamIndex + 1) Args
       (tupleToFill[kTupleIndex := x]) numArgs w1
   }"

definition BuildArguments ::
  "lua_conv \<Rightarrow> bool \<Rightarrow> LuaState_ptr \<Rightarrow> ctype list \<Rightarrow> world \<Rightarrow> (cvalue list \<times> world) option" where
  "BuildArguments cv checks pState Args w =
     (if pState = NullState then None
      else do {
        (tupleArgs, w1) \<leftarrow>
          ProcessArg cv checks pState 0 1 Args (map (\<lambda>T. zero_init T w) Args) (lua_gettop w) w;
        Some (tupleArgs, lua_settop 0 w1)
      })"

definition BuildArgumentsWithObj ::
  "lua_conv \<Rightarrow> bool \<Rightarrow> LuaState_ptr \<Rightarrow> ctype list \<Rightarrow> cptr \<Rightarrow> world
     \<Rightarrow> (cvalue list \<times> world) option" where
  "BuildArgumentsWithObj cv checks pState Args pObj w =
     (if pState = NullState then None
      else do {
        (tupleArgs, w1) \<leftarrow>
          ProcessArg cv checks pState 1 1 Args (VPtr pObj # map (\<lambda>T. zero_init T w) Args)
            (lua_gettop w + 1) w;
        Some (tupleArgs, lua_settop 0 w1)
      })"

text \<open>
  What the marshalling layer makes of one Lua value, for every type but \<open>LuaVar\<close>: the
  value \<open>StackHelpers::Get\<close> returns for a stack slot that holds \<open>v\<close>.
\<close>

fun to_native :: "lua_conv \<Rightarrow> ctype \<Rightarrow> lua_value \<Rightarrow> cvalue" where
  "to_native cv TBool v = VBool (v \<noteq> LNil \<and> v \<noteq> LBoolean False)"
| "to_native cv (TInteger bits isSigned) v =
     (case cvt2num cv v of
        None \<Rightarrow> VInt 0
      | Some n \<Rightarrow> (case num_tointeger n of
                     None \<Rightarrow> VInt 0
                   | Some i \<Rightarrow> VInt (static_cast_int bits isSigned i)))"
| "to_native cv TUnsigned v =
     (case cvt2num cv v of
        None \<Rightarrow> VInt 0
      | Some n \<Rightarrow> (case num_tointeger n of None \<Rightarrow> VInt 0 | Some i \<Rightarrow> VInt (take_bit 64 i)))"
| "to_native cv (TNumber F) v =
     (case cvt2num cv v of
        Some (LInteger i) \<Rightarrow> VNum (static_cast_float cv F (cast_num cv i))
      | Some (LNumber r) \<Rightarrow> VNum (static_cast_float cv F r)
      | _ \<Rightarrow> VNum 0)"
| "to_native cv TString v =
     (case v of
        LString s \<Rightarrow> VStr (Some (c_str s))
      | LInteger n \<Rightarrow> VStr (Some (c_str (tostringbuff cv (LInteger n))))
      | LNumber r \<Rightarrow> VStr (Some (c_str (tostringbuff cv (LNumber r))))
      | _ \<Rightarrow> VStr None)"
| "to_native cv TUserData v =
     (case v of LUserData a \<Rightarrow> VPtr (BlockPtr a) | LLightUserData p \<Rightarrow> VPtr p | _ \<Rightarrow> VPtr NullPtr)"
| "to_native cv TLuaVar v = VNil"

text \<open>
  \<open>holds w h v\<close>: the handle \<open>h\<close> stands for the value \<open>v\<close> in \<open>w\<close>, either as the nil handle
  or through a live registry slot. \<open>marshalled cv w T v x\<close>: the native value \<open>x\<close> is the
  value \<open>v\<close> read as a \<open>T\<close>; for a \<open>LuaVar\<close>, a handle that stands for \<open>v\<close>.
\<close>

definition holds :: "world \<Rightarrow> LuaVar \<Rightarrow> lua_value \<Rightarrow> bool" where
  "holds w h v =
     (m_pState h = TheState \<and>
      ((m_reference h = LUA_REFNIL \<and> m_pRefCount h = None \<and> v = LNil) \<or>
       (0 < m_reference h \<and> nat (m_reference h - 1) < length (registry w)
        \<and> registry w ! nat (m_reference h - 1) = Some v \<and> v \<noteq> LNil
        \<and> m_pRefCount h \<noteq> None)))"

definition marshalled :: "lua_conv \<Rightarrow> world \<Rightarrow> ctype \<Rightarrow> lua_value \<Rightarrow> cvalue \<Rightarrow> bool" where
  "marshalled cv w T v x =
     (if T = TLuaVar then (case x of VVar h \<Rightarrow> holds w h v | _ \<Rightarrow> False)
      else x = to_native cv T v)"

section \<open>Tables\<close>

definition table_get :: "world \<Rightarrow> nat \<Rightarrow> lua_value \<Rightarrow> lua_value" where
  \<comment> \<open>the raw \<open>t[k]\<close>: nil for an absent key\<close>
  "table_get w a k =
     (if a < length (tables w)
      then (case map_of (tables w ! a) k of None \<Rightarrow> LNil | Some v \<Rightarrow> v)
      else LNil)"

definition lua_rawget :: "int \<Rightarrow> world \<Rightarrow> world option" where
  \<comment> \<open>pops the key and pushes \<open>t[key]\<close>; the value at \<open>idx\<close> must be a table\<close>
  "lua_rawget idx w =
     (case (lua_at w idx, lua_at w (-1)) of
        (Some (LTable a), Some k) \<Rightarrow> Some (push (table_get w a k) (lua_pop 1 w))
      | _ \<Rightarrow> None)"

text \<open>
  The indexing access \<open>t[k]\<close> of the language (\<open>luaV_gettable\<close>, \<open>luaV_finishget\<close>): the raw
  value if \<open>t\<close> is a table and has one; else the \<open>__index\<close> entry of the metatable decides:
  none gives nil, a function is called, another table is indexed in turn, for at most
  \<open>MAXTAGLOOP\<close> rounds. \<open>luaV_index\<close> is the part of it that only reads tables: it finds the
  value, or the handler to call (with the table it belongs to), or a value that is no
  table and has to be indexed, or a chain that is too long (a runtime error).
\<close>

definition metatable_of :: "world \<Rightarrow> nat \<Rightarrow> nat option" where
  "metatable_of w a = (if a < length (metatables w) then metatables w ! a else None)"

definition index_handler :: "world \<Rightarrow> nat \<Rightarrow> lua_value" where
  \<comment> \<open>\<open>fasttm(L, metatable, TM_INDEX)\<close>, nil for \<open>NULL\<close>\<close>
  "index_handler w a =
     (case metatable_of w a of None \<Rightarrow> LNil | Some m \<Rightarrow> table_get w m (LString ''__index''))"

datatype index_result = Found lua_value | Handler lua_value lua_value | Other lua_value | ChainTooLong

definition MAXTAGLOOP :: nat where
  "MAXTAGLOOP = 2000"

fun finishget :: "nat \<Rightarrow> world \<Rightarrow> nat \<Rightarrow> lua_value \<Rightarrow> index_result" where
  \<comment> \<open>the rounds that are left, and a table \<open>a\<close> whose raw entry for \<open>k\<close> is nil\<close>
  "finishget 0 w a k = ChainTooLong"
| "finishget (Suc n) w a k =
     (case index_handler w a of
        LNil \<Rightarrow> Found LNil
      | LFunction f \<Rightarrow> Handler (LFunction f) (LTable a)
      | LCFunction f \<Rightarrow> Handler (LCFunction f) (LTable a)
      | LTable b \<Rightarrow>
          (if table_get w b k \<noteq> LNil then Found (table_get w b k) else finishget n w b k)
      | tm \<Rightarrow> Other tm)"

definition luaV_index :: "world \<Rightarrow> lua_value \<Rightarrow> lua_value \<Rightarrow> index_result" where
  "luaV_index w t k =
     (case t of
        LTable a \<Rightarrow>
          (if table_get w a k \<noteq> LNil then Found (table_get w a k)
           else finishget MAXTAGLOOP w a k)
      | _ \<Rightarrow> Other t)"

definition luaV_gettable ::
  "lua_conv \<Rightarrow> lua_value \<Rightarrow> lua_value \<Rightarrow> world \<Rightarrow> (lua_value \<times> world) option" where
  "luaV_gettable cv t k w =
     (case luaV_index w t k of
        Found x \<Rightarrow> Some (x, w)
      | Handler tm t' \<Rightarrow> luaT_callTM cv tm t' k w
      | Other t' \<Rightarrow> index_other cv t' k w
      | ChainTooLong \<Rightarrow> None)"

definition lua_gettable :: "lua_conv \<Rightarrow> int \<Rightarrow> world \<Rightarrow> world option" where
  \<comment> \<open>pops the key and pushes \<open>t[key]\<close>, \<open>t\<close> the value at \<open>idx\<close>; may run a metamethod\<close>
  "lua_gettable cv idx w =
     (case (lua_at w idx, lua_at w (-1)) of
        (Some t, Some k) \<Rightarrow> do {
          (x, w1) \<leftarrow> luaV_gettable cv t k w;
          Some (push x (lua_pop 1 w1))
        }
      | _ \<Rightarrow> None)"

section \<open>Native function binding: the trampoline of a member function (LuaVar.h)\<close>

text \<open>
  The bound native function is a parameter: applied to the argument tuple (the object
  pointer first) and the world, it gives its return value and the world afterwards. The
  outcome of a trampoline is the number of results it reports to the runtime, the tuple
  the native function was applied to (\<open>None\<close>: it was not invoked), and the world.
  In a debug build each trampoline first reads a traceback into an unused local; that
  pushes one string and pops it again and is left out.
\<close>

type_synonym native_fn = "cvalue list \<Rightarrow> world \<Rightarrow> (cvalue \<times> world) option"

fun destroy_tuple :: "bool \<Rightarrow> cvalue list \<Rightarrow> world \<Rightarrow> world option" where
  \<comment> \<open>the argument handles are destroyed when the call is over\<close>
  "destroy_tuple checks [] w = Some w"
| "destroy_tuple checks (VVar h # xs) w = do {
     w1 \<leftarrow> LuaVar_dtor checks w h;
     destroy_tuple checks xs w1
   }"
| "destroy_tuple checks (x # xs) w = destroy_tuple checks xs w"

definition invoke_native ::
  "bool \<Rightarrow> ctype option \<Rightarrow> native_fn \<Rightarrow> cvalue list \<Rightarrow> world
     \<Rightarrow> (int \<times> cvalue list option \<times> world) option" where
  \<comment> \<open>\<open>luastl::apply(pFunc, tuple)\<close>, then the result is pushed unless \<open>RetType\<close> is void\<close>
  "invoke_native checks RetType pFunc tupleArgs w = do {
     (val, w1) \<leftarrow> pFunc tupleArgs w;
     w2 \<leftarrow> destroy_tuple checks tupleArgs w1;
     case RetType of
       None \<Rightarrow> Some (0, Some tupleArgs, w2)
     | Some T \<Rightarrow> do { w3 \<leftarrow> Push checks TheState val w2; Some (1, Some tupleArgs, w3) }
   }"

definition Call_member ::
  "lua_conv \<Rightarrow> bool \<Rightarrow> ctype option \<Rightarrow> ctype list \<Rightarrow> cptr \<Rightarrow> native_fn \<Rightarrow> world
     \<Rightarrow> (int \<times> cvalue list option \<times> world) option" where
  \<comment> \<open>\<open>LuaVar::Call<Obj>(pState, pObj, pFunc)\<close>; \<open>GetCppStateFromCState\<close> gives the state\<close>
  "Call_member cv checks RetType Args pObj pFunc w = do {
     (tupleArgs, w1) \<leftarrow> BuildArgumentsWithObj cv checks TheState Args pObj w;
     invoke_native checks RetType pFunc tupleArgs w1
   }"

definition CallBoundMemberFunction ::
  "lua_conv \<Rightarrow> bool \<Rightarrow> ctype option \<Rightarrow> ctype list \<Rightarrow> native_fn \<Rightarrow> world
     \<Rightarrow> (int \<times> cvalue list option \<times> world) option" where
  "CallBoundMemberFunction cv checks RetType Args pFunc w =
     (let type = lua_type w 1 in
      if type \<noteq> LUA_TTABLE
      then Some (0, None,
                 LUA_ERROR (''No table was passed into bound function.  Type is ''
                            @ lua_typename type) w)
      else do {
        let w1 = lua_pushvalue 1 w;
        let w2 = lua_pushstring (Some ''__object'') w1;
        w3 \<leftarrow> lua_rawget (-2) w2;
        if \<not> lua_isuserdata w3 (-1)
        then Some (0, None,
                   LUA_ERROR (''Couldn't find userdata __object on parameter passed in.  Type is ''
                              @ lua_typename (lua_type w3 (-1))) w3)
        else do {
          let pObj = lua_touserdata w3 (-1);
          let w4 = lua_pop 2 w3;
          let w5 = lua_remove 1 w4;
          Call_member cv checks RetType Args pObj pFunc w5
        }
      })"

definition returns_nothing :: native_fn where
  \<comment> \<open>a native function that leaves the world alone\<close>
  "returns_nothing tupleArgs w = Some (VNil, w)"

definition receiver_world :: "lua_value \<Rightarrow> world" where
  \<comment> \<open>a call \<open>t:f(5)\<close> where \<open>t.__object\<close> is \<open>obj\<close>: the stack holds \<open>t\<close> and 5\<close>
  "receiver_world obj =
     empty_world\<lparr>stack := [LTable 0, LInteger 5], tables := [[(LString ''__object'', obj)]],
                 udata := [NativePtr 42]\<rparr>"

text \<open>
  Two worlds compared, for the proofs: \<open>reg_mono w w'\<close>, every occupied registry slot of
  \<open>w\<close> is unchanged in \<open>w'\<close>; \<open>frame k w w1\<close>, the stack of \<open>w1\<close> is that of \<open>w\<close> but for
  slot \<open>k\<close>, the registry has only grown and the default state is the same.
\<close>

definition reg_mono :: "world \<Rightarrow> world \<Rightarrow> bool" where
  "reg_mono w w' =
     (length (registry w) \<le> length (registry w') \<and>
      (\<forall>i<length (registry w). registry w ! i \<noteq> None \<longrightarrow> registry w' ! i = registry w ! i))"

definition frame :: "nat \<Rightarrow> world \<Rightarrow> world \<Rightarrow> bool" where
  "frame k w w1 =
     (length (stack w1) = length (stack w) \<and> (\<forall>j. j \<noteq> k \<longrightarrow> stack w1 ! j = stack w ! j)
      \<and> reg_mono w w1 \<and> s_pDefaultLuaState w1 = s_pDefaultLuaState w)"

section \<open>The table iterator (TableIterator.h, TableIterator.cpp, LuaVar::InternalBegin)\<close>

text \<open>
  \<open>lua_next(L, idx)\<close> pops a key and pushes the key and value of the entry after it (the
  first entry for nil); with no entry left it pushes nothing and returns 0. A key that
  is not in the table is a runtime error. A table is the list of its entries in traversal
  order.
\<close>

fun next_entry ::
  "lua_value \<Rightarrow> (lua_value \<times> lua_value) list \<Rightarrow> (lua_value \<times> lua_value) option option" where
  "next_entry k [] = (if k = LNil then Some None else None)"
| "next_entry k (e # es) =
     (if k = LNil then Some (Some e)
      else if fst e = k then Some (case es of [] \<Rightarrow> None | e' # _ \<Rightarrow> Some e')
      else next_entry k es)"

definition lua_next :: "int \<Rightarrow> world \<Rightarrow> (int \<times> world) option" where
  "lua_next idx w =
     (case (lua_at w idx, lua_at w (-1)) of
        (Some (LTable a), Some k) \<Rightarrow>
          (if a < length (tables w)
           then (case next_entry k (tables w ! a) of
                   None \<Rightarrow> None
                 | Some None \<Rightarrow> Some (0, lua_pop 1 w)
                 | Some (Some (k', v')) \<Rightarrow> Some (1, push v' (push k' (lua_pop 1 w))))
           else None)
      | _ \<Rightarrow> None)"

record TableIterator =
  m_pState_it :: LuaState_ptr
  m_key :: LuaVar
  m_value :: LuaVar
  m_isAtEnd :: bool

definition TableIterator_default :: "world \<Rightarrow> TableIterator" where
  \<comment> \<open>\<open>TableIterator()\<close>: no state, an empty pair, at the end\<close>
  "TableIterator_default w =
     \<lparr>m_pState_it = NullState, m_key = LuaVar_default w, m_value = LuaVar_default w,
      m_isAtEnd = True\<rparr>"

text \<open>
  \<open>LuaVar::InternalBegin\<close>. The iterator is built from the two handles by moves and returned
  by value; a moved-from iterator is at the end and a moved-from handle is nil, so the
  temporaries' destructors do nothing.
\<close>

definition InternalBegin :: "bool \<Rightarrow> LuaVar \<Rightarrow> world \<Rightarrow> (TableIterator \<times> world) option" where
  "InternalBegin checks this w =
     (if \<not> IsValid this
      then Some (TableIterator_default w,
                 LUA_ERROR ''Trying to get an iterator for an invalid variable.'' w)
      else do {
        (_, w1) \<leftarrow> PushValueToStack this True w;
        if \<not> lua_istable w1 (-1)
        then Some (TableIterator_default w1,
                   lua_pop 1 (LUA_ERROR ''Trying to get an iterator for a variable that isn't a table.'' w1))
        else do {
          let w2 = push LNil w1;
          (result, w3) \<leftarrow> lua_next (-2) w2;
          if result = 0
          then Some (TableIterator_default w3, lua_pop 1 w3)
          else do {
            let w4 = lua_pushvalue (-2) w3;
            (w5, key) \<leftarrow> CreateFromStack checks (m_pState this) w4;
            (w6, val) \<leftarrow> CreateFromStack checks (m_pState this) w5;
            Some (\<lparr>m_pState_it = m_pState this, m_key = key, m_value = val,
                   m_isAtEnd = False\<rparr>, w6)
          }
        }
      })"

definition SetToEnd :: "bool \<Rightarrow> TableIterator \<Rightarrow> world \<Rightarrow> (TableIterator \<times> world) option" where
  "SetToEnd checks it w = do {
     (w1, k) \<leftarrow> ClearRef checks w (m_key it);
     (w2, v) \<leftarrow> ClearRef checks w1 (m_value it);
     if m_pState_it it = NullState then None
     else Some (it\<lparr>m_isAtEnd := True, m_key := k, m_value := v\<rparr>, lua_pop 1 w2)
   }"

text \<open>
  \<open>TableIterator::operator++\<close>. Each of the two assignments is a move assignment from the
  temporary that \<open>CreateFromStack\<close> returns.
\<close>

definition op_inc :: "bool \<Rightarrow> TableIterator \<Rightarrow> world \<Rightarrow> (TableIterator \<times> world) option" where
  "op_inc checks it w =
     (if m_pState_it it = NullState then None
      else do {
        (r, w1) \<leftarrow> lua_next (-2) w;
        if r = 0 then SetToEnd checks it w1
        else do {
          let w2 = lua_pushvalue (-2) w1;
          (w3, tmpKey) \<leftarrow> CreateFromStack checks (m_pState_it it) w2;
          (w4, key, _) \<leftarrow> Move checks w3 (m_key it) tmpKey;
          (w5, tmpValue) \<leftarrow> CreateFromStack checks (m_pState_it it) w4;
          (w6, val, _) \<leftarrow> Move checks w5 (m_value it) tmpValue;
          Some (it\<lparr>m_key := key, m_value := val\<rparr>, w6)
        }
      })"

text \<open>
  \<open>~TableIterator\<close>: the body pops the table and the key unless the iterator is at the
  end; then the members are destroyed, the value before the key.
\<close>

definition TableIterator_dtor :: "bool \<Rightarrow> TableIterator \<Rightarrow> world \<Rightarrow> world option" where
  "TableIterator_dtor checks it w = do {
     w1 \<leftarrow> (if \<not> m_isAtEnd it
            then (if m_pState_it it = NullState then None else Some (lua_pop 2 w))
            else Some w);
     w2 \<leftarrow> LuaVar_dtor checks w1 (m_value it);
     LuaVar_dtor checks w2 (m_key it)
   }"

text \<open>
  A loop that leaves after at most \<open>n\<close> steps:
  \<open>for (; it != end && n > 0; ++it, --n)\<close>. The continuation test \<open>it != end\<close> is
  \<open>it.IsValid()\<close>, that is \<open>!m_isAtEnd\<close>.
\<close>

fun advance :: "bool \<Rightarrow> nat \<Rightarrow> TableIterator \<Rightarrow> world \<Rightarrow> (TableIterator \<times> world) option" where
  "advance checks 0 it w = Some (it, w)"
| "advance checks (Suc n) it w =
     (if m_isAtEnd it then Some (it, w)
      else do { (it1, w1) \<leftarrow> op_inc checks it w; advance checks n it1 w1 })"

text \<open>
  For the proofs: \<open>live_rc w h\<close>, the handle is nil or its reference count object exists;
  \<open>it_inv w base a it\<close>, an iterator over table \<open>a\<close> begun on the stack \<open>base\<close> is either at
  the end with that stack back, or has the table and one of its keys on top of it.
\<close>

definition live_rc :: "world \<Rightarrow> LuaVar \<Rightarrow> bool" where
  "live_rc w h =
     (case m_pRefCount h of
        None \<Rightarrow> m_reference h = LUA_REFNIL
      | Some p \<Rightarrow>
          m_reference h \<noteq> LUA_REFNIL \<and> m_pState h = TheState \<and> RefCount_at w p \<noteq> None)"

definition it_inv :: "world \<Rightarrow> lua_value list \<Rightarrow> nat \<Rightarrow> TableIterator \<Rightarrow> bool" where
  "it_inv w base a it =
     (live_rc w (m_key it) \<and> live_rc w (m_value it)
      \<and> (m_pRefCount (m_key it) = None \<or> m_pRefCount (m_key it) \<noteq> m_pRefCount (m_value it))
      \<and> (if m_isAtEnd it then stack w = base
          else m_pState_it it = TheState
               \<and> (\<exists>k. k \<in> fst ` set (tables w ! a) \<and> stack w = base @ [LTable a, k])))"

definition abc_world :: world where
  \<comment> \<open>a runtime with the table \<open>{a = 1, b = 2, c = 3}\<close> held by one handle\<close>
  "abc_world =
     empty_world\<lparr>registry := [Some (LTable 0)],
                 tables := [[(LString ''a'', LInteger 1), (LString ''b'', LInteger 2),
                             (LString ''c'', LInteger 3)]],
                 refcounts := [Some 1]\<rparr>"

text \<open>
  For the proofs: \<open>rc_step p w w'\<close>, from \<open>w\<close> to \<open>w'\<close> only the registry, the diagnostics
  and the reference count object \<open>p\<close> may have changed; \<open>nil_of h\<close>, the handle after
  \<open>ClearRef\<close>.
\<close>

definition rc_step :: "nat option \<Rightarrow> world \<Rightarrow> world \<Rightarrow> bool" where
  "rc_step p w w' =
     (stack w' = stack w \<and> tables w' = tables w
      \<and> length (refcounts w') = length (refcounts w)
      \<and> (\<forall>q. Some q \<noteq> p \<longrightarrow> RefCount_at w' q = RefCount_at w q))"

definition nil_of :: "LuaVar \<Rightarrow> LuaVar" where
  "nil_of h = h\<lparr>m_reference := LUA_REFNIL, m_pRefCount := None\<rparr>"

section \<open>Table fields and the dotted-path lookup (LuaVar::GetTableValue, LuaVar::Lookup)\<close>

text \<open>
  The key is a \<open>const char*\<close>; \<open>Lookup\<close> passes \<open>c_str()\<close> of each piece of the path.
\<close>

definition GetTableValue ::
  "lua_conv \<Rightarrow> bool \<Rightarrow> ctype \<Rightarrow> LuaVar \<Rightarrow> string \<Rightarrow> world \<Rightarrow> (cvalue \<times> world) option" where
  "GetTableValue cv checks T this key w =
     (if checks \<and> m_pState this = NullState then None
      else do {
        (ist, w1) \<leftarrow> IsTable checks this w;
        if \<not> ist
        then do {
          (tn, w2) \<leftarrow> GetTypeNameStr checks this w1;
          let w3 = LUA_ERROR (''Trying to get a table value from a var that isn't a table.  Type is ''
                              @ tn) w2;
          Some (GetDefault T w3, w3)
        }
        else do {
          (_, w2) \<leftarrow> PushValueToStack this True w1;
          let w3 = lua_pushstring (Some key) w2;
          w4 \<leftarrow> lua_gettable cv (-2) w3;
          (ok, w5) \<leftarrow> Is cv checks T (m_pState this) (-1) w4;
          if \<not> ok
          then (let w6 = LUA_ERROR (''Trying to get key '' @ c_str key
                                    @ '' but it's not of the appropriate type.'') w5
                in Some (GetDefault T w6, lua_pop 2 w6))
          else do {
            (result, w6) \<leftarrow> Get cv checks T (m_pState this) (-1) w5;
            Some (result, lua_pop 2 w6)
          }
        }
      })"

definition GetTableVar ::
  "lua_conv \<Rightarrow> bool \<Rightarrow> LuaVar \<Rightarrow> string \<Rightarrow> world \<Rightarrow> (LuaVar \<times> world) option" where
  \<comment> \<open>\<open>GetTableValue<LuaVar>(key)\<close>\<close>
  "GetTableVar cv checks this key w = do {
     (x, w1) \<leftarrow> GetTableValue cv checks TLuaVar this key w;
     case x of VVar h \<Rightarrow> Some (h, w1) | _ \<Rightarrow> None
   }"

text \<open>
  The splitting loop of \<open>Lookup\<close>. \<open>find_first_of s c pos\<close> is
  \<open>s.find_first_of(c, pos)\<close> (\<open>None\<close> is \<open>npos\<close>) and \<open>substr s pos n\<close> is \<open>s.substr(pos, n)\<close>.
  In the source \<open>end\<close> is \<open>path.find_first_of('.', start)\<close> whenever the loop tests it, so
  the loop state is \<open>start\<close> and the pieces so far; the loop returns both.
\<close>

definition find_first_of :: "string \<Rightarrow> char \<Rightarrow> nat \<Rightarrow> nat option" where
  "find_first_of s c pos = find (\<lambda>i. s ! i = c) [pos..<length s]"

definition substr :: "string \<Rightarrow> nat \<Rightarrow> nat \<Rightarrow> string" where
  "substr s pos n = take n (drop pos s)"

function split_loop :: "string \<Rightarrow> nat \<Rightarrow> string list \<Rightarrow> string list \<times> nat" where
  "split_loop path start splitPath =
     (case find_first_of path (CHR ''.'') start of
        None \<Rightarrow> (splitPath, start)
      | Some end \<Rightarrow>
          split_loop path (end + 1) (splitPath @ [substr path start (end - start)]))"
  by pat_completeness auto
termination
proof (relation "measure (\<lambda>(path, start, splitPath). length path + 1 - start)")
  show "wf (measure (\<lambda>(path, start, splitPath). length path + 1 - start))" by simp
next
  fix path :: string and start :: nat and splitPath :: "string list" and e :: nat
  assume "find_first_of path (CHR ''.'') start = Some e"
  then have "start \<le> e" "e < length path"
    by (auto simp: find_first_of_def find_Some_iff)
  then show "((path, e + 1, splitPath @ [substr path start (e - start)]), (path, start, splitPath))
        \<in> measure (\<lambda>(path, start, splitPath). length path + 1 - start)"
    by simp
qed

definition split_path :: "string \<Rightarrow> string list" where
  \<comment> \<open>the final piece, \<open>path.substr(start, npos - start)\<close>, is added only if it is not empty\<close>
  "split_path path =
     (let (splitPath, start) = split_loop path 0 [];
          finalPiece = drop start path
      in if finalPiece \<noteq> [] then splitPath @ [finalPiece] else splitPath)"

text \<open>
  The \<open>for\<close> loop of \<open>Lookup\<close> over all pieces but the last. It gives the handle returned
  from inside the loop, if any, then \<open>currVar\<close> and the world. \<open>currVar = curr.GetTableVar(...)\<close>
  is a move assignment from the temporary.
\<close>

fun Lookup_loop ::
  "lua_conv \<Rightarrow> bool \<Rightarrow> string \<Rightarrow> string list \<Rightarrow> LuaVar \<Rightarrow> world
     \<Rightarrow> (LuaVar option \<times> LuaVar \<times> world) option" where
  "Lookup_loop cv checks path [] currVar w = Some (None, currVar, w)"
| "Lookup_loop cv checks path (piece # rest) currVar w = do {
     (tmp, w1) \<leftarrow> GetTableVar cv checks currVar (c_str piece) w;
     (w2, currVar1, _) \<leftarrow> Move checks w1 currVar tmp;
     (ist, w3) \<leftarrow> IsTable checks currVar1 w2;
     if \<not> ist
     then do {
       (tn, w4) \<leftarrow> GetTypeNameStr checks currVar1 w3;
       let w5 = LUA_ERROR (''Attempting to call Lookup() when one of the elements isn't a table.  Full path is ''
                           @ path @ '' and element is '' @ piece @ ''.  Type is '' @ tn) w4;
       Some (Some (LuaVar_default w5), currVar1, w5)
     }
     else Lookup_loop cv checks path rest currVar1 w3
   }"

definition Lookup ::
  "lua_conv \<Rightarrow> bool \<Rightarrow> LuaVar \<Rightarrow> string \<Rightarrow> world \<Rightarrow> (LuaVar \<times> world) option" where
  "Lookup cv checks this path w = do {
     (ist, w1) \<leftarrow> IsTable checks this w;
     if \<not> ist
     then do {
       (tn, w2) \<leftarrow> GetTypeNameStr checks this w1;
       let w3 = LUA_ERROR (''Attempting to call Lookup() on var that isn't a table.  Type is ''
                           @ tn) w2;
       Some (LuaVar_default w3, w3)
     }
     else
       (let splitPath = split_path path in
        if splitPath = []
        then (let w2 = LUA_ERROR (''Empty path in Lookup(): '' @ path) w1
              in Some (LuaVar_default w2, w2))
        else if length splitPath = 1
        then GetTableVar cv checks this (c_str (splitPath ! 0)) w1
        else do {
          (w2, currVar) \<leftarrow> Copy checks w1 (LuaVar_default w1) this;
          (early, currVar1, w3) \<leftarrow> Lookup_loop cv checks path (butlast splitPath) currVar w2;
          case early of
            Some r \<Rightarrow> do { w4 \<leftarrow> LuaVar_dtor checks w3 currVar1; Some (r, w4) }
          | None \<Rightarrow> do {
              (r, w4) \<leftarrow> GetTableVar cv checks currVar1 (c_str (last splitPath)) w3;
              w5 \<leftarrow> LuaVar_dtor checks w4 currVar1;
              Some (r, w5)
            }
        })
   }"


datatype lookup_result = Reaches lua_value | Stops | Leaves

fun lookup_value :: "world \<Rightarrow> lua_value \<Rightarrow> string list \<Rightarrow> lookup_result" where
  "lookup_value w v [] = Stops"
| "lookup_value w (LTable a) [p] =
     (case luaV_index w (LTable a) (LString (c_str p)) of Found x \<Rightarrow> Reaches x | _ \<Rightarrow> Leaves)"
| "lookup_value w (LTable a) (p # ps) =
     (case luaV_index w (LTable a) (LString (c_str p)) of
        Found x \<Rightarrow> lookup_value w x ps
      | _ \<Rightarrow> Leaves)"
| "lookup_value w v (p # ps) = Stops"

definition nested_world :: world where
  \<comment> \<open>a runtime with \<open>t = {a = {b = 7}}\<close>; one handle holds \<open>t\<close>\<close>
  "nested_world =
     empty_world\<lparr>registry := [Some (LTable 0)],
                 tables := [[(LString ''a'', LTable 1)], [(LString ''b'', LInteger 7)]],
                 refcounts := [Some 1]\<rparr>"

definition handler_world :: world where
  \<comment> \<open>as \<open>nested_world\<close>, and \<open>t.a\<close> has a metatable whose \<open>__index\<close> is a function\<close>
  "handler_world =
     nested_world\<lparr>tables := tables nested_world @ [[(LString ''__index'', LFunction 0)]],
                   metatables := [None, Some 2]\<rparr>"






definition same :: "world \<Rightarrow> world \<Rightarrow> bool" where
  "same w w' =
     (stack w' = stack w \<and> tables w' = tables w \<and> metatables w' = metatables w
      \<and> cerr w' = cerr w \<and> s_pDefaultLuaState w' = s_pDefaultLuaState w)"


section \<open>Properties\<close>

subsection \<open>Stack and registry facts\<close>

lemma cerr_LUA_ERROR: "cerr (LUA_ERROR m w) = cerr w @ [m]"
  by (simp add: LUA_ERROR_def)

lemma cerr_push: "cerr (push v w) = cerr w"
  by (simp add: push_def)


lemma pop_push: "lua_pop (Suc 0) (push a w) = w"
  by (simp add: lua_pop_def push_def)

lemma pop_push2: "lua_pop 2 (push b (push a w)) = w"
  by (simp add: lua_pop_def push_def)

lemma lua_at_push: "lua_at (push a w) (-1) = Some a"
  by (auto simp: lua_at_def stack_pos_def push_def nth_append Let_def nat_add_distrib)

lemma lua_at_push2:
  "lua_at (push b (push a w)) (-1) = Some b"
  "lua_at (push b (push a w)) (-2) = Some a"
  by (auto simp: lua_at_def stack_pos_def push_def nth_append Let_def nat_add_distrib)

lemma value_of_push: "value_of (push x w) v = value_of w v"
  by (simp add: value_of_def registry_at_def push_def)

lemma PushValueToStack_allowNil:
  "m_pState v = TheState \<Longrightarrow> PushValueToStack v True w = Some (True, push (value_of w v) w)"
  by (simp add: PushValueToStack_def value_of_def lua_rawgeti_registry_def)

subsection \<open>Self-assignment\<close>

text \<open>
  C10. Copy assignment and move assignment of a handle to itself return at once: the
  world (registry, reference counts, stack) and every handle are what they were.
\<close>

theorem self_assignment_is_noop:
  "copy_assign checks (w, vars) a a = Some (w, vars) \<and>
   move_assign checks (w, vars) a a = Some (w, vars)"
  by (simp add: copy_assign_def move_assign_def)

subsection \<open>Setting a value on a handle that holds one\<close>

text \<open>
  C1. \<open>SetValue\<close> does not call \<open>ClearRef\<close>. With the assertions compiled out, setting an
  integer and then a boolean on the same handle leaves the first registry entry and the
  first reference count object behind (count still 1, no handle refers to them); with
  assertions, the second call stops at \<open>LUA_ASSERT(!m_pRefCount)\<close>.
\<close>

theorem SetValue_on_live_handle_leaks:
  "do { (w1, h1) \<leftarrow> SetInteger False empty_world (LuaVar_ctor TheState) 1;
        SetBool False w1 h1 True }
     = Some (empty_world\<lparr>registry := [Some (LInteger 1), Some (LBoolean True)],
                          refcounts := [Some 1, Some 1]\<rparr>,
             \<lparr>m_pState = TheState, m_pRefCount = Some 1, m_reference = 2\<rparr>)
   \<and> do { (w1, h1) \<leftarrow> SetInteger True empty_world (LuaVar_ctor TheState) 1;
          SetBool True w1 h1 True } = None"
  by code_simp

subsection \<open>The pairing of registry slot and reference count\<close>

text \<open>
  C8. Same defect as C1: on a handle that holds a value, \<open>SetString(nullptr)\<close> pushes nil,
  \<open>luaL_ref\<close> answers \<open>LUA_REFNIL\<close>, and the old reference count pointer stays in the
  handle: the slot field says "no value" while the pointer is not null.
\<close>

theorem SetString_null_breaks_pairing:
  "do { (w1, h1) \<leftarrow> SetInteger False empty_world (LuaVar_ctor TheState) 1;
        SetString False w1 h1 None }
     = Some (empty_world\<lparr>registry := [Some (LInteger 1)], refcounts := [Some 1]\<rparr>,
             \<lparr>m_pState = TheState, m_pRefCount = Some 0, m_reference = LUA_REFNIL\<rparr>)
   \<and> \<not> paired \<lparr>m_pState = TheState, m_pRefCount = Some 0, m_reference = LUA_REFNIL\<rparr>"
  by code_simp

subsection \<open>Comparison operators\<close>

lemma CompareHelper_operand_order:
  "m_pState this = TheState \<Longrightarrow> m_pState right = TheState \<Longrightarrow>
   CompareHelper prim checks w this right op
     = map_option (\<lambda>r. (r, w)) (prim op (value_of w right) (value_of w this))"
  by (cases "prim op (value_of w right) (value_of w this)")
     (simp_all add: CompareHelper_def PushValueToStack_allowNil value_of_push lua_compare_def
      lua_at_push2 pop_push2)

text \<open>
  C3. \<open>CompareHelper\<close> pushes left, then right, and calls \<open>lua_compare(L, -1, -2, op)\<close>:
  index \<open>-1\<close> is the right operand, so the primitive gets the operands swapped. For the
  handles of 1 and 2, \<open>a < b\<close> is false.
\<close>

theorem less_than_swaps_operands:
  "do { (w1, a) \<leftarrow> SetInteger False empty_world (LuaVar_ctor TheState) 1;
        (w2, b) \<leftarrow> SetInteger False w1 (LuaVar_ctor TheState) 2;
        (r, w3) \<leftarrow> op_lt raw_op False w2 a b;
        Some r } = Some False"
  by code_simp

subsection \<open>Acting on a handle's value\<close>

lemma pop_LUA_ERROR_push: "lua_pop (Suc 0) (LUA_ERROR msg (push a w)) = LUA_ERROR msg w"
  by (simp add: lua_pop_def push_def LUA_ERROR_def)

lemma lua_type_push: "lua_type (push a w) (-1) = type_tag a"
  by (simp add: lua_type_def lua_at_push)

lemma stack_pos_push: "stack_pos (push a w) (-1) = Some (length (stack w))"
  by (auto simp: stack_pos_def push_def Let_def nat_add_distrib)

lemma DoLuaAction_valid:
  "IsValid v \<Longrightarrow>
   DoLuaAction checks v func zero allowNil w
     = do { (ret, w2) \<leftarrow> func (push (value_of w v) w); Some (ret, lua_pop 1 w2) }"
  by (auto simp: DoLuaAction_def PushValueToStack_def IsValid_def value_of_def
      lua_rawgeti_registry_def split: Option.bind_splits)

lemma DoLuaAction_not_valid:
  "\<not> IsValid v \<Longrightarrow> m_pState v = TheState \<Longrightarrow>
   DoLuaAction checks v func zero False w = Some (zero, w)"
  by (simp add: DoLuaAction_def PushValueToStack_def)

lemma IsFunction_eq:
  "m_pState f = TheState \<Longrightarrow>
   IsFunction checks f w = Some (IsValid f \<and> type_tag (value_of w f) = 6, w)"
  by (cases "IsValid f")
     (simp_all add: IsFunction_def DoLuaAction_valid DoLuaAction_not_valid lua_isfunction_def
       lua_type_push pop_push)


lemma GetValue_valid:
  "m_pState h = TheState \<Longrightarrow> m_reference h \<noteq> LUA_REFNIL \<Longrightarrow>
   GetValue cv checks T h w
     = do { (ret, w2) \<leftarrow> Get cv checks T TheState (-1) (push (value_of w h) w);
            Some (ret, lua_pop 1 w2) }"
  by (simp add: GetValue_def DoLuaAction_valid IsValid_def)

subsection \<open>Getters on a value of another type\<close>

lemma lua_tointegerx_push:
  "lua_tointegerx cv (push v w) (-1)
     = (case cvt2num cv v of None \<Rightarrow> None | Some n \<Rightarrow> num_tointeger n)"
  by (simp add: lua_tointegerx_def lua_at_push)

lemma GetBool_valid:
  "m_pState h = TheState \<Longrightarrow> m_reference h \<noteq> LUA_REFNIL \<Longrightarrow>
   GetBool cv checks h w
     = Some (VBool (value_of w h \<noteq> LNil \<and> value_of w h \<noteq> LBoolean False), w)"
  by (cases "value_of w h")
     (auto simp add: GetBool_def GetValue_valid lua_toboolean_def lua_at_push pop_push)

lemma GetInteger_fails:
  "m_pState h = TheState \<Longrightarrow> m_reference h \<noteq> LUA_REFNIL \<Longrightarrow>
   \<not> convertible cv (TInteger 64 True) (value_of w h) \<Longrightarrow>
   GetInteger cv checks bits isSigned h w
     = Some (VInt 0, LUA_ERROR (''Failed to convert value to integer.  Type is ''
                                 @ lua_typename (type_tag (value_of w h))) w)"
  by (auto simp add: GetInteger_def GetValue_valid lua_tointegerx_push lua_type_push
       pop_LUA_ERROR_push static_cast_int_def split: option.splits)

lemma static_cast_float_zero: "static_cast_float cv F 0 = 0"
  by (cases F) (simp_all add: static_cast_float_def)

lemma GetNumber_fails:
  "m_pState h = TheState \<Longrightarrow> m_reference h \<noteq> LUA_REFNIL \<Longrightarrow>
   \<not> convertible cv (TNumber F) (value_of w h) \<Longrightarrow>
   GetNumber cv checks F h w = Some (VNum 0, w)"
  by (simp add: GetNumber_def GetValue_valid lua_tonumber_def lua_at_push pop_push
      static_cast_float_zero)

lemma GetString_fails:
  "m_pState h = TheState \<Longrightarrow> m_reference h \<noteq> LUA_REFNIL \<Longrightarrow>
   \<not> convertible cv TString (value_of w h) \<Longrightarrow>
   GetString cv checks h w = Some (VStr None, w)"
  by (cases "value_of w h")
     (simp_all add: GetString_def GetValue_valid lua_tostring_def stack_pos_push pop_push,
      simp_all add: push_def pop_push[unfolded push_def])

lemma GetLightUserData_fails:
  "m_pState h = TheState \<Longrightarrow> m_reference h \<noteq> LUA_REFNIL \<Longrightarrow>
   \<not> convertible cv TUserData (value_of w h) \<Longrightarrow>
   GetLightUserData cv checks h w = Some (VPtr NullPtr, w)"
  by (cases "value_of w h")
     (simp_all add: GetLightUserData_def GetValue_valid lua_touserdata_def lua_at_push pop_push)

text \<open>
  \<open>GetNumber<float>\<close> rounds: 16777217 is no \<open>float\<close>.
\<close>

lemma GetNumber_rounds:
  "do { (w1, h) \<leftarrow> SetInteger True empty_world (LuaVar_ctor TheState) 16777217;
        (r, w2) \<leftarrow> GetNumber no_numerals True CFloat h w1;
        (d, w3) \<leftarrow> GetNumber no_numerals True CDouble h w2;
        Some (r, d) }
     = Some (VNum 16777216, VNum 16777217)"
  by code_simp

text \<open>
  C5, as the claim states it, fails for \<open>GetBool\<close>: on a handle that holds the integer 5 it
  returns true (\<open>lua_toboolean\<close> is the truth value of Lua, not a conversion that can fail),
  not the default false.
\<close>

theorem GetBool_of_integer_is_true:
  "do { (w1, five) \<leftarrow> SetInteger True empty_world (LuaVar_ctor TheState) 5;
        (r, w2) \<leftarrow> GetBool no_numerals True five w1;
        Some (r, r = GetDefault TBool w2, cerr w2) }
     = Some (VBool True, False, [])"
  by code_simp

lemma GetValue_not_valid:
  "\<not> IsValid h \<Longrightarrow>
   GetValue cv checks T h w = (if checks then None else Some (zero_init T w, w))"
  by (auto simp add: GetValue_def DoLuaAction_def PushValueToStack_def IsValid_def)

text \<open>
  C5, amended. A handle is valid when it has a state and a reference. On a valid handle:
  when the value converts to no integer, \<open>GetInteger\<close> returns 0 and reports it (in every
  build); when it converts to no number, no string, no userdata pointer, \<open>GetNumber\<close>,
  \<open>GetString\<close> and \<open>GetLightUserData\<close> return 0, the null string and the null pointer and
  report nothing; \<open>GetBool\<close> returns false for the boolean false (and nil) and true for
  every other value; none of these calls fails, and the stack is as before. On a handle
  that is not valid (the nil handle, or one without a state) every getter stops at an
  assertion in a checked build; in an unchecked build it returns false, 0, the null
  string or the null pointer, and reports nothing.
\<close>

theorem getters_on_unconvertible_value:
  "(IsValid h \<longrightarrow>
      (\<not> convertible cv (TInteger 64 True) (value_of w h) \<longrightarrow>
         GetInteger cv checks bits isSigned h w
           = Some (VInt 0, LUA_ERROR (''Failed to convert value to integer.  Type is ''
                                       @ lua_typename (type_tag (value_of w h))) w))
      \<and> (\<not> convertible cv (TNumber F) (value_of w h) \<longrightarrow>
           GetNumber cv checks F h w = Some (VNum 0, w))
      \<and> (\<not> convertible cv TString (value_of w h) \<longrightarrow>
           GetString cv checks h w = Some (VStr None, w))
      \<and> (\<not> convertible cv TUserData (value_of w h) \<longrightarrow>
           GetLightUserData cv checks h w = Some (VPtr NullPtr, w))
      \<and> GetBool cv checks h w
           = Some (VBool (value_of w h \<noteq> LNil \<and> value_of w h \<noteq> LBoolean False), w))
   \<and> (\<not> IsValid h \<and> checks \<longrightarrow>
        GetInteger cv checks bits isSigned h w = None
      \<and> GetNumber cv checks F h w = None
      \<and> GetString cv checks h w = None
      \<and> GetLightUserData cv checks h w = None
      \<and> GetBool cv checks h w = None)
   \<and> (\<not> IsValid h \<and> \<not> checks \<longrightarrow>
        GetInteger cv checks bits isSigned h w = Some (VInt 0, w)
      \<and> GetNumber cv checks F h w = Some (VNum 0, w)
      \<and> GetString cv checks h w = Some (VStr None, w)
      \<and> GetLightUserData cv checks h w = Some (VPtr NullPtr, w)
      \<and> GetBool cv checks h w = Some (VBool False, w))"
proof -
  have valid: "m_pState h = TheState" "m_reference h \<noteq> LUA_REFNIL" if "IsValid h"
    using that by (cases "m_pState h"; simp add: IsValid_def)+
  have 1: "IsValid h \<longrightarrow>
      (\<not> convertible cv (TInteger 64 True) (value_of w h) \<longrightarrow>
         GetInteger cv checks bits isSigned h w
           = Some (VInt 0, LUA_ERROR (''Failed to convert value to integer.  Type is ''
                                       @ lua_typename (type_tag (value_of w h))) w))
      \<and> (\<not> convertible cv (TNumber F) (value_of w h) \<longrightarrow>
           GetNumber cv checks F h w = Some (VNum 0, w))
      \<and> (\<not> convertible cv TString (value_of w h) \<longrightarrow>
           GetString cv checks h w = Some (VStr None, w))
      \<and> (\<not> convertible cv TUserData (value_of w h) \<longrightarrow>
           GetLightUserData cv checks h w = Some (VPtr NullPtr, w))
      \<and> GetBool cv checks h w
           = Some (VBool (value_of w h \<noteq> LNil \<and> value_of w h \<noteq> LBoolean False), w)"
    using valid
    by (simp add: GetInteger_fails GetNumber_fails GetString_fails GetLightUserData_fails
        GetBool_valid)
  have 2: "\<not> IsValid h \<and> checks \<longrightarrow>
        GetInteger cv checks bits isSigned h w = None
      \<and> GetNumber cv checks F h w = None
      \<and> GetString cv checks h w = None
      \<and> GetLightUserData cv checks h w = None
      \<and> GetBool cv checks h w = None"
    by (simp add: GetInteger_def GetNumber_def GetString_def GetLightUserData_def GetBool_def
        GetValue_not_valid)
  have 3: "\<not> IsValid h \<and> \<not> checks \<longrightarrow>
        GetInteger cv checks bits isSigned h w = Some (VInt 0, w)
      \<and> GetNumber cv checks F h w = Some (VNum 0, w)
      \<and> GetString cv checks h w = Some (VStr None, w)
      \<and> GetLightUserData cv checks h w = Some (VPtr NullPtr, w)
      \<and> GetBool cv checks h w = Some (VBool False, w)"
    by (simp add: GetInteger_def GetNumber_def GetString_def GetLightUserData_def GetBool_def
        GetValue_not_valid static_cast_int_def static_cast_float_zero)
  from 1 2 3 show ?thesis by blast
qed

theorem getters_on_unconvertible_value_witness:
  "IsValid table_handle \<and> \<not> IsValid (LuaVar_ctor TheState)
   \<and> GetInteger no_numerals True 32 True table_handle table_world
     = Some (VInt 0, LUA_ERROR ''Failed to convert value to integer.  Type is table'' table_world)
   \<and> GetNumber no_numerals True CFloat table_handle table_world = Some (VNum 0, table_world)
   \<and> GetString no_numerals True table_handle table_world = Some (VStr None, table_world)
   \<and> GetLightUserData no_numerals True table_handle table_world
       = Some (VPtr NullPtr, table_world)
   \<and> GetBool no_numerals True table_handle table_world = Some (VBool True, table_world)
   \<and> GetInteger no_numerals True 32 True (LuaVar_ctor TheState) empty_world = None
   \<and> GetBool no_numerals True (LuaVar_ctor TheState) empty_world = None
   \<and> GetInteger no_numerals False 32 True (LuaVar_ctor TheState) empty_world
       = Some (VInt 0, empty_world)
   \<and> GetBool no_numerals False (LuaVar_ctor TheState) empty_world
       = Some (VBool False, empty_world)"
proof -
  have v: "value_of table_world table_handle = LTable 0"
    by (simp add: value_of_def IsValid_def registry_at_def table_world_def table_handle_def
        empty_world_def LUA_REFNIL_def)
  have s: "IsValid table_handle"
    by (simp add: IsValid_def table_handle_def LUA_REFNIL_def)
  have n: "\<not> IsValid (LuaVar_ctor TheState)"
    by (simp add: IsValid_def LuaVar_ctor_def)
  note a = getters_on_unconvertible_value
             [of table_handle no_numerals table_world True 32 True CFloat]
  note b = getters_on_unconvertible_value
             [of "LuaVar_ctor TheState" no_numerals empty_world True 32 True CFloat]
  note c = getters_on_unconvertible_value
             [of "LuaVar_ctor TheState" no_numerals empty_world False 32 True CFloat]
  from a s have 1:
    "GetInteger no_numerals True 32 True table_handle table_world
     = Some (VInt 0, LUA_ERROR ''Failed to convert value to integer.  Type is table'' table_world)
   \<and> GetNumber no_numerals True CFloat table_handle table_world = Some (VNum 0, table_world)
   \<and> GetString no_numerals True table_handle table_world = Some (VStr None, table_world)
   \<and> GetLightUserData no_numerals True table_handle table_world
       = Some (VPtr NullPtr, table_world)
   \<and> GetBool no_numerals True table_handle table_world = Some (VBool True, table_world)"
    by (simp add: v lua_typename_def)
  from b n have 2:
    "GetInteger no_numerals True 32 True (LuaVar_ctor TheState) empty_world = None
   \<and> GetBool no_numerals True (LuaVar_ctor TheState) empty_world = None"
    by simp
  from c n have 3:
    "GetInteger no_numerals False 32 True (LuaVar_ctor TheState) empty_world
       = Some (VInt 0, empty_world)
   \<and> GetBool no_numerals False (LuaVar_ctor TheState) empty_world
       = Some (VBool False, empty_world)"
    by simp
  from s n 1 2 3 show ?thesis by blast
qed

subsection \<open>Calling a handle that is no function\<close>

lemma CheckFunctionVar_not_function:
  "m_pState f = TheState \<Longrightarrow> \<not> (IsValid f \<and> type_tag (value_of w f) = 6) \<Longrightarrow>
   CheckFunctionVar checks f w
     = Some (False, LUA_ERROR ''Attempting to call invalid Lua function.'' w)"
  by (simp add: CheckFunctionVar_def IsFunction_eq)

lemma call_args_not_function:
  "m_pState f = TheState \<Longrightarrow> \<not> (IsValid f \<and> type_tag (value_of w f) = 6) \<Longrightarrow>
   call_args cv pcall checks RetType f args w
     = Some (GetDefault RetType (LUA_ERROR ''Attempting to call invalid Lua function.'' w),
             LUA_ERROR ''Attempting to call invalid Lua function.'' w)"
  by (simp add: call_args_def CheckFunctionVar_not_function)

lemma call_args_void_not_function:
  "m_pState f = TheState \<Longrightarrow> \<not> (IsValid f \<and> type_tag (value_of w f) = 6) \<Longrightarrow>
   call_args_void cv pcall checks f args w
     = Some (LUA_ERROR ''Attempting to call invalid Lua function.'' w)"
  by (simp add: call_args_void_def CheckFunctionVar_not_function)

lemma call0_void_not_function:
  "m_pState f = TheState \<Longrightarrow> \<not> (IsValid f \<and> type_tag (value_of w f) = 6) \<Longrightarrow>
   call0_void cv pcall checks f w
     = Some (LUA_ERROR ''Attempting to call invalid Lua function.'' w)"
  by (simp add: call0_void_def CheckFunctionVar_not_function)

lemma call0_not_function:
  "m_pState f = TheState \<Longrightarrow> \<not> (IsValid f \<and> type_tag (value_of w f) = 6) \<Longrightarrow>
   call0 cv pcall checks RetType f w
     = Get cv checks RetType TheState (-1)
         (LUA_ERROR ''Attempting to call invalid Lua function.'' w)"
  by (simp add: call0_def CheckFunctionVar_not_function)

text \<open>
  C2. On a handle that is no function, the call with arguments and both void calls
  return the default with the world unchanged but for the diagnostic (the lemmas above).
  The call without arguments of a non-void \<open>LuaFunction\<close> returns
  \<open>StackHelpers::Get<RetType>\<close> of the stack's top instead of
  \<open>StackHelpers::GetDefault<RetType>\<close>: with 7 on the stack, a \<open>LuaFunction<int>\<close> around a
  nil handle returns 7, where the same call with an argument returns 0.
\<close>

theorem zero_argument_call_reads_stack_top:
  "do { (w1, seven) \<leftarrow> SetInteger False empty_world (LuaVar_ctor TheState) 7;
        (_, w2) \<leftarrow> PushValueToStack seven True w1;
        (f, w3) \<leftarrow> LuaFunction_ctor False (LuaVar_default w2) w2;
        (r0, w4) \<leftarrow> call0 no_numerals failing_pcall False (TInteger 32 True) f w3;
        (r1, w5) \<leftarrow> call_args no_numerals failing_pcall False (TInteger 32 True) f [VInt 1] w3;
        Some (r0, r1, GetDefault (TInteger 32 True) w3, stack w3, stack w4) }
     = Some (VInt 7, VInt 0, VInt 0, [LInteger 7], [LInteger 7])"
  by code_simp

subsection \<open>Creating registry entries\<close>

lemma first_free_le: "first_free r \<le> length r"
  by (induction r rule: first_free.induct) auto

lemma first_free_free: "first_free r < length r \<Longrightarrow> r ! first_free r = None"
  by (induction r rule: first_free.induct) auto

lemma store_first_free_keeps:
  "i < length r \<Longrightarrow> r ! i \<noteq> None \<Longrightarrow> store_at (first_free r) y r ! i = r ! i"
  using first_free_free [of r]
  by (cases "i = first_free r") (auto simp: store_at_def nth_append)

lemma store_first_free_new: "store_at (first_free r) y r ! first_free r = y"
  using first_free_le [of r] by (auto simp: store_at_def nth_append)

lemma length_store_first_free:
  "length r \<le> length (store_at (first_free r) y r)"
  "first_free r < length (store_at (first_free r) y r)"
  using first_free_le [of r] by (auto simp: store_at_def)

lemma reg_mono_refl: "reg_mono w w"
  by (simp add: reg_mono_def)

lemma reg_mono_trans: "reg_mono a b \<Longrightarrow> reg_mono b c \<Longrightarrow> reg_mono a c"
  unfolding reg_mono_def
  by (metis (no_types, lifting) le_trans less_le_trans)

lemma last_snoc_stack: "last (stack (push v w)) = v" "stack (push v w) \<noteq> []"
  by (simp_all add: push_def)

lemma luaL_ref_push:
  "luaL_ref (push v w)
     = Some (if v = LNil then (LUA_REFNIL, w)
             else (int (first_free (registry w)) + 1,
                   w\<lparr>registry := store_at (first_free (registry w)) (Some v) (registry w)\<rparr>))"
  by (simp add: luaL_ref_def push_def lua_pop_def Let_def)

lemma CreateFromStack_push:
  "CreateFromStack checks TheState (push v w)
     = Some (if v = LNil then (w, LuaVar_ctor TheState)
             else (w\<lparr>registry := store_at (first_free (registry w)) (Some v) (registry w),
                      refcounts := refcounts w @ [Some 1]\<rparr>,
                   \<lparr>m_pState = TheState, m_pRefCount = Some (length (refcounts w)),
                    m_reference = int (first_free (registry w)) + 1\<rparr>))"
  by (simp add: CreateFromStack_def CreateRegisteryEntryFromStack_def LuaVar_ctor_def
      luaL_ref_push LUA_REFNIL_def RefCount_new_def)

lemma holds_mono: "holds w h v \<Longrightarrow> reg_mono w w' \<Longrightarrow> holds w' h v"
  unfolding holds_def reg_mono_def
  by (metis less_le_trans option.distinct(1))

lemma marshalled_mono: "marshalled cv w T v x \<Longrightarrow> reg_mono w w' \<Longrightarrow> marshalled cv w' T v x"
  by (auto simp: marshalled_def holds_mono split: cvalue.splits)

lemma holds_created:
  assumes c: "CreateFromStack checks TheState (push v w) = Some (w', h)"
  shows "holds w' h v \<and> reg_mono w w' \<and> stack w' = stack w
   \<and> s_pDefaultLuaState w' = s_pDefaultLuaState w \<and> tables w' = tables w \<and> cerr w' = cerr w"
proof (cases "v = LNil")
  case True
  with c show ?thesis
    by (auto simp: CreateFromStack_push holds_def reg_mono_def LuaVar_ctor_def LUA_REFNIL_def)
next
  case False
  let ?r = "registry w"
  from c False have w': "w' = w\<lparr>registry := store_at (first_free ?r) (Some v) ?r,
                      refcounts := refcounts w @ [Some 1]\<rparr>"
    and h: "h = \<lparr>m_pState = TheState, m_pRefCount = Some (length (refcounts w)),
                    m_reference = int (first_free ?r) + 1\<rparr>"
    by (simp_all add: CreateFromStack_push)
  have "holds w' h v"
    using False by (simp add: holds_def w' h store_first_free_new length_store_first_free)
  moreover have "reg_mono w w'"
    unfolding reg_mono_def
  proof (intro conjI allI impI)
    show "length (registry w) \<le> length (registry w')"
      by (simp add: w' length_store_first_free)
  next
    fix i assume "i < length (registry w)"
    moreover assume "registry w ! i \<noteq> None"
    ultimately show "registry w' ! i = registry w ! i"
      using store_first_free_keeps [of i ?r "Some v"] by (simp add: w')
  qed
  ultimately show ?thesis by (simp add: w')
qed

lemma stack_pos_positive:
  "0 < k \<Longrightarrow> k \<le> length (stack w) \<Longrightarrow> stack_pos w (int k) = Some (k - 1)"
  by (auto simp: stack_pos_def nat_diff_distrib')

lemma lua_at_positive:
  "0 < k \<Longrightarrow> k \<le> length (stack w) \<Longrightarrow> lua_at w (int k) = Some (stack w ! (k - 1))"
  by (simp add: lua_at_def stack_pos_positive)

lemma frame_LUA_ERROR: "frame k w (LUA_ERROR m w)"
  by (simp add: frame_def LUA_ERROR_def reg_mono_def)

lemma frame_refl: "frame k w w"
  by (simp add: frame_def reg_mono_def)

lemma Get_frame:
  assumes k: "0 < k" "k \<le> length (stack w)"
  shows "\<exists>x w1. Get cv checks T TheState (int k) w = Some (x, w1)
           \<and> marshalled cv w1 T (stack w ! (k - 1)) x \<and> frame (k - 1) w w1"
proof (cases T)
  case TBool
  then show ?thesis
    by (cases "stack w ! (k - 1)")
       (simp_all add: lua_toboolean_def lua_at_positive k marshalled_def frame_refl)
next
  case (TInteger bits isSigned)
  then show ?thesis
    by (auto simp: lua_tointegerx_def lua_at_positive k marshalled_def frame_refl
          frame_LUA_ERROR split: option.splits)
next
  case TUnsigned
  then show ?thesis
    by (auto simp: lua_tointegerx_def lua_at_positive k marshalled_def frame_refl
          frame_LUA_ERROR split: option.splits)
next
  case (TNumber F)
  then show ?thesis
    by (auto simp: lua_tonumber_def lua_at_positive k marshalled_def frame_refl
          static_cast_float_zero split: option.splits lua_value.splits)
next
  case TString
  then show ?thesis
    by (cases "stack w ! (k - 1)")
       (auto simp: lua_tostring_def stack_pos_positive k marshalled_def frame_refl
          frame_def reg_mono_def)
next
  case TUserData
  then show ?thesis
    by (cases "stack w ! (k - 1)")
       (simp_all add: lua_touserdata_def lua_at_positive k marshalled_def frame_refl)
next
  case TLuaVar
  obtain w1 h where c: "CreateFromStack checks TheState (push (stack w ! (k - 1)) w) = Some (w1, h)"
    by (cases "CreateFromStack checks TheState (push (stack w ! (k - 1)) w)")
       (auto simp: CreateFromStack_push)
  from holds_created [OF c] TLuaVar c show ?thesis
    by (simp add: lua_pushvalue_def lua_at_positive k marshalled_def frame_def)
qed


lemma Get_cerr:
  assumes k: "0 < k" "k \<le> length (stack w)"
    and g: "Get cv checks T TheState (int k) w = Some (x, w1)"
  shows "(\<exists>msgs. cerr w1 = cerr w @ msgs)
       \<and> (convertible cv T (stack w ! (k - 1)) \<longrightarrow> cerr w1 = cerr w)"
proof (cases T)
  case TBool
  with g show ?thesis by auto
next
  case (TInteger bits isSigned)
  with g show ?thesis
    by (auto simp: lua_tointegerx_def lua_at_positive k cerr_LUA_ERROR split: option.splits)
next
  case TUnsigned
  with g show ?thesis
    by (auto simp: lua_tointegerx_def lua_at_positive k cerr_LUA_ERROR
        split: option.splits if_splits)
next
  case (TNumber F)
  with g show ?thesis by auto
next
  case TString
  with g show ?thesis
    by (auto simp: lua_tostring_def split: option.splits lua_value.splits)
next
  case TUserData
  with g show ?thesis by auto
next
  case TLuaVar
  with g obtain h where
    c: "CreateFromStack checks TheState (push (stack w ! (k - 1)) w) = Some (w1, h)"
    by (auto simp: lua_pushvalue_def lua_at_positive k split: Option.bind_splits)
  from holds_created [OF c] show ?thesis by simp
qed

subsection \<open>Rebuilding the arguments\<close>

lemma GetDefault_cong:
  "s_pDefaultLuaState w1 = s_pDefaultLuaState w \<Longrightarrow> GetDefault T w1 = GetDefault T w"
  by (cases T) (simp_all add: LuaVar_default_def)

lemma ProcessArg_spec:
  assumes "numArgs + s = length (stack w) + kT" and "kT + length Args \<le> length tuple"
  shows "\<exists>t w'. ProcessArg cv checks TheState kT (Suc s) Args tuple numArgs w = Some (t, w')
      \<and> length t = length tuple
      \<and> (\<forall>j<kT. t ! j = tuple ! j)
      \<and> (\<forall>i<length Args. s + i < length (stack w) \<longrightarrow>
            marshalled cv w' (Args ! i) (stack w ! (s + i)) (t ! (kT + i)))
      \<and> (\<forall>i<length Args. \<not> s + i < length (stack w) \<longrightarrow>
            t ! (kT + i) = GetDefault (Args ! i) w)
      \<and> length (stack w') = length (stack w) \<and> reg_mono w w'
      \<and> s_pDefaultLuaState w' = s_pDefaultLuaState w"
  using assms
proof (induction Args arbitrary: kT s tuple w)
  case Nil
  then show ?case by (simp add: reg_mono_refl)
next
  case (Cons A As)
  let ?n = "length (stack w)"
  have cond: "kT < numArgs \<longleftrightarrow> s < ?n" using Cons.prems by linarith
  obtain x w1 where step:
    "(if kT < numArgs then Get cv checks A TheState (int (Suc s)) w
      else Some (GetDefault A w, w)) = Some (x, w1)"
    and fr: "frame s w w1"
    and xin: "s < ?n \<Longrightarrow> marshalled cv w1 A (stack w ! s) x"
    and xout: "\<not> s < ?n \<Longrightarrow> x = GetDefault A w"
  proof (cases "s < ?n")
    case True
    then have "0 < Suc s" "Suc s \<le> ?n" by simp_all
    from Get_frame [OF this, of cv checks A] obtain y w2 where
      "Get cv checks A TheState (int (Suc s)) w = Some (y, w2)"
      "marshalled cv w2 A (stack w ! (Suc s - 1)) y" "frame (Suc s - 1) w w2"
      by blast
    with that [of y w2] True cond show ?thesis by simp
  next
    case False
    with that [of "GetDefault A w" w] cond show ?thesis by (simp add: frame_refl)
  qed
  have len1: "length (stack w1) = ?n" and dflt1: "s_pDefaultLuaState w1 = s_pDefaultLuaState w"
    and mono1: "reg_mono w w1" and same: "\<And>j. j \<noteq> s \<Longrightarrow> stack w1 ! j = stack w ! j"
    using fr by (simp_all add: frame_def)
  have pre: "numArgs + Suc s = length (stack w1) + (kT + 1)"
    "kT + 1 + length As \<le> length (tuple[kT := x])"
    using Cons.prems len1 by simp_all
  from Cons.IH [OF pre] obtain t w' where
    run: "ProcessArg cv checks TheState (kT + 1) (Suc (Suc s)) As (tuple[kT := x]) numArgs w1
            = Some (t, w')"
    and lt: "length t = length (tuple[kT := x])"
    and old: "\<forall>j<kT + 1. t ! j = tuple[kT := x] ! j"
    and new_in: "\<forall>i<length As. Suc s + i < length (stack w1) \<longrightarrow>
            marshalled cv w' (As ! i) (stack w1 ! (Suc s + i)) (t ! (kT + 1 + i))"
    and new_out: "\<forall>i<length As. \<not> Suc s + i < length (stack w1) \<longrightarrow>
            t ! (kT + 1 + i) = GetDefault (As ! i) w1"
    and len': "length (stack w') = length (stack w1)" and mono': "reg_mono w1 w'"
    and dflt': "s_pDefaultLuaState w' = s_pDefaultLuaState w1"
    by blast
  have tk: "t ! kT = x" using old Cons.prems(2) by simp
  have r: "ProcessArg cv checks TheState kT (Suc s) (A # As) tuple numArgs w = Some (t, w')"
    using step run by simp
  have o: "\<forall>j<kT. t ! j = tuple ! j" using old by simp
  have a: "\<forall>i<length (A # As). s + i < ?n \<longrightarrow>
            marshalled cv w' ((A # As) ! i) (stack w ! (s + i)) (t ! (kT + i))"
  proof (intro allI impI)
    fix i assume i: "i < length (A # As)" and slot: "s + i < ?n"
    show "marshalled cv w' ((A # As) ! i) (stack w ! (s + i)) (t ! (kT + i))"
    proof (cases i)
      case 0
      with slot have "marshalled cv w1 A (stack w ! s) x" by (simp add: xin)
      then have "marshalled cv w' A (stack w ! s) x" using mono' by (rule marshalled_mono)
      with 0 tk show ?thesis by simp
    next
      case (Suc i')
      with i have i': "i' < length As" by simp
      from slot Suc have "Suc s + i' < length (stack w1)" by (simp add: len1)
      with new_in i' have "marshalled cv w' (As ! i') (stack w1 ! (Suc s + i')) (t ! (kT + 1 + i'))"
        by blast
      moreover have "stack w1 ! (Suc s + i') = stack w ! (Suc s + i')" by (rule same) simp
      ultimately show ?thesis using Suc by simp
    qed
  qed
  have b: "\<forall>i<length (A # As). \<not> s + i < ?n \<longrightarrow>
            t ! (kT + i) = GetDefault ((A # As) ! i) w"
  proof (intro allI impI)
    fix i assume i: "i < length (A # As)" and slot: "\<not> s + i < ?n"
    show "t ! (kT + i) = GetDefault ((A # As) ! i) w"
    proof (cases i)
      case 0
      with slot tk show ?thesis by (simp add: xout)
    next
      case (Suc i')
      with i have i': "i' < length As" by simp
      from slot Suc have "\<not> Suc s + i' < length (stack w1)" by (simp add: len1)
      with new_out i' have "t ! (kT + 1 + i') = GetDefault (As ! i') w1" by blast
      with Suc show ?thesis by (simp add: GetDefault_cong [OF dflt1])
    qed
  qed
  have m: "reg_mono w w'" using mono1 mono' by (rule reg_mono_trans)
  from r o a b m lt len' len1 dflt' dflt1 show ?case by simp
qed

lemma ProcessArg_cerr:
  assumes "numArgs + s = length (stack w) + kT"
    and "ProcessArg cv checks TheState kT (Suc s) Args tuple numArgs w = Some (t, w')"
  shows "(\<exists>msgs. cerr w' = cerr w @ msgs)
       \<and> ((\<forall>i<length Args. s + i < length (stack w) \<longrightarrow>
               convertible cv (Args ! i) (stack w ! (s + i))) \<longrightarrow> cerr w' = cerr w)"
  using assms
proof (induction Args arbitrary: kT s tuple w)
  case Nil
  then show ?case by simp
next
  case (Cons A As)
  let ?n = "length (stack w)"
  have cond: "kT < numArgs \<longleftrightarrow> s < ?n" using Cons.prems(1) by linarith
  show ?case
  proof (cases "s < ?n")
    case True
    then have k: "0 < Suc s" "Suc s \<le> ?n" by simp_all
    from Get_frame [OF k, of cv checks A] obtain y w1 where
      g: "Get cv checks A TheState (int (Suc s)) w = Some (y, w1)"
      and fr: "frame (Suc s - 1) w w1"
      by blast
    from fr have len1: "length (stack w1) = ?n"
      and same: "\<And>j. j \<noteq> s \<Longrightarrow> stack w1 ! j = stack w ! j"
      by (simp_all add: frame_def)
    from Get_cerr [OF k g] have c1: "\<exists>msgs. cerr w1 = cerr w @ msgs"
      and c2: "convertible cv A (stack w ! s) \<longrightarrow> cerr w1 = cerr w"
      by simp_all
    have run: "ProcessArg cv checks TheState (kT + 1) (Suc (Suc s)) As (tuple[kT := y]) numArgs w1
                 = Some (t, w')"
      using Cons.prems(2) True cond g by simp
    have pre: "numArgs + Suc s = length (stack w1) + (kT + 1)"
      using Cons.prems(1) len1 by simp
    from Cons.IH [OF pre run] have i1: "\<exists>msgs. cerr w' = cerr w1 @ msgs"
      and i2: "(\<forall>i<length As. Suc s + i < length (stack w1) \<longrightarrow>
                 convertible cv (As ! i) (stack w1 ! (Suc s + i))) \<longrightarrow> cerr w' = cerr w1"
      by simp_all
    from c1 i1 have a: "\<exists>msgs. cerr w' = cerr w @ msgs" by auto
    have b: "cerr w' = cerr w"
      if all: "\<forall>i<length (A # As). s + i < ?n \<longrightarrow> convertible cv ((A # As) ! i) (stack w ! (s + i))"
    proof -
      from all [rule_format, of 0] True have "convertible cv A (stack w ! s)" by simp
      with c2 have e1: "cerr w1 = cerr w" by simp
      have "\<forall>i<length As. Suc s + i < length (stack w1) \<longrightarrow>
                 convertible cv (As ! i) (stack w1 ! (Suc s + i))"
      proof (intro allI impI)
        fix i assume i: "i < length As" and l: "Suc s + i < length (stack w1)"
        from all [rule_format, of "Suc i"] i l len1
        have "convertible cv (As ! i) (stack w ! (Suc s + i))" by simp
        moreover have "stack w1 ! (Suc s + i) = stack w ! (Suc s + i)" by (rule same) simp
        ultimately show "convertible cv (As ! i) (stack w1 ! (Suc s + i))" by simp
      qed
      with i2 e1 show ?thesis by simp
    qed
    from a b show ?thesis by blast
  next
    case False
    have run: "ProcessArg cv checks TheState (kT + 1) (Suc (Suc s)) As
                 (tuple[kT := GetDefault A w]) numArgs w = Some (t, w')"
      using Cons.prems(2) False cond by simp
    have pre: "numArgs + Suc s = length (stack w) + (kT + 1)"
      using Cons.prems(1) by simp
    from Cons.IH [OF pre run] False show ?thesis by simp
  qed
qed

text \<open>
  C6, as the claim states it, fails for a string parameter: the default of \<open>const char*\<close> is
  the null pointer, not the empty string.
\<close>

theorem omitted_string_argument_is_null:
  "BuildArguments no_numerals True TheState [TString] empty_world
     = Some ([VStr None], empty_world)
   \<and> VStr None \<noteq> VStr (Some [])"
  by (simp add: BuildArguments_def lua_gettop_def lua_settop_def empty_world_def)

text \<open>
  C6, amended. For declared parameter types \<open>Args\<close> (n of them) and a call that supplied the
  stack of \<open>w\<close> (m values), \<open>BuildArguments\<close> returns a tuple of n positions: position \<open>i\<close> is
  the value of stack slot \<open>i\<close> converted to the declared type when the call supplied it (a
  number by \<open>static_cast\<close> to the declared floating-point type), and the default of its type
  otherwise: false, 0, the null pointer, the null string, the nil handle. Values beyond the
  n-th take no part. Diagnostics are only added, and none is added when every supplied
  value converts to its type: nothing is reported about missing or surplus arguments. The
  stack is empty afterwards; the native function is invoked only after \<open>BuildArguments\<close> has
  returned.
\<close>

theorem BuildArguments_positions:
  "\<exists>tuple w'. BuildArguments cv checks TheState Args w = Some (tuple, w')
      \<and> length tuple = length Args
      \<and> stack w' = []
      \<and> (\<forall>i<length Args. i < length (stack w) \<longrightarrow>
            marshalled cv w' (Args ! i) (stack w ! i) (tuple ! i))
      \<and> (\<forall>i<length Args. length (stack w) \<le> i \<longrightarrow>
            tuple ! i = GetDefault (Args ! i) w)
      \<and> (\<exists>msgs. cerr w' = cerr w @ msgs)
      \<and> ((\<forall>i<length Args. i < length (stack w) \<longrightarrow> convertible cv (Args ! i) (stack w ! i))
            \<longrightarrow> cerr w' = cerr w)"
proof -
  have pre: "lua_gettop w + 0 = length (stack w) + 0"
    "0 + length Args \<le> length (map (\<lambda>T. zero_init T w) Args)"
    by (simp_all add: lua_gettop_def)
  from ProcessArg_spec [OF this, of cv checks] obtain t w1 where
    run: "ProcessArg cv checks TheState 0 (Suc 0) Args (map (\<lambda>T. zero_init T w) Args)
            (lua_gettop w) w = Some (t, w1)"
    and lt: "length t = length (map (\<lambda>T. zero_init T w) Args)"
    and p_in: "\<forall>i<length Args. 0 + i < length (stack w) \<longrightarrow>
            marshalled cv w1 (Args ! i) (stack w ! (0 + i)) (t ! (0 + i))"
    and p_out: "\<forall>i<length Args. \<not> 0 + i < length (stack w) \<longrightarrow>
            t ! (0 + i) = GetDefault (Args ! i) w"
    by blast
  from ProcessArg_cerr [OF pre(1) run] have c1: "\<exists>msgs. cerr w1 = cerr w @ msgs"
    and c2: "(\<forall>i<length Args. 0 + i < length (stack w) \<longrightarrow>
               convertible cv (Args ! i) (stack w ! (0 + i))) \<longrightarrow> cerr w1 = cerr w"
    by simp_all
  have m: "reg_mono w1 (lua_settop 0 w1)" by (simp add: reg_mono_def lua_settop_def)
  have ce: "cerr (lua_settop 0 w1) = cerr w1" by (simp add: lua_settop_def)
  have r: "BuildArguments cv checks TheState Args w = Some (t, lua_settop 0 w1)"
    using run by (simp add: BuildArguments_def)
  have e: "stack (lua_settop 0 w1) = []" by (simp add: lua_settop_def)
  have a: "\<forall>i<length Args. i < length (stack w) \<longrightarrow>
            marshalled cv (lua_settop 0 w1) (Args ! i) (stack w ! i) (t ! i)"
  proof (intro allI impI)
    fix i assume "i < length Args" "i < length (stack w)"
    with p_in have "marshalled cv w1 (Args ! i) (stack w ! i) (t ! i)" by simp
    then show "marshalled cv (lua_settop 0 w1) (Args ! i) (stack w ! i) (t ! i)"
      using m by (rule marshalled_mono)
  qed
  have b: "\<forall>i<length Args. length (stack w) \<le> i \<longrightarrow> t ! i = GetDefault (Args ! i) w"
    using p_out by simp
  have d1: "\<exists>msgs. cerr (lua_settop 0 w1) = cerr w @ msgs" using c1 ce by simp
  have d2: "(\<forall>i<length Args. i < length (stack w) \<longrightarrow> convertible cv (Args ! i) (stack w ! i))
            \<longrightarrow> cerr (lua_settop 0 w1) = cerr w"
    using c2 ce by simp
  from d1 obtain msgs where ms: "cerr (lua_settop 0 w1) = cerr w @ msgs" ..
  show ?thesis
  proof (intro exI conjI)
    show "BuildArguments cv checks TheState Args w = Some (t, lua_settop 0 w1)" by (rule r)
    show "length t = length Args" using lt by simp
    show "stack (lua_settop 0 w1) = []" by (rule e)
    show "\<forall>i<length Args. i < length (stack w) \<longrightarrow>
            marshalled cv (lua_settop 0 w1) (Args ! i) (stack w ! i) (t ! i)" by (rule a)
    show "\<forall>i<length Args. length (stack w) \<le> i \<longrightarrow> t ! i = GetDefault (Args ! i) w"
      by (rule b)
    show "cerr (lua_settop 0 w1) = cerr w @ msgs" by (rule ms)
    show "(\<forall>i<length Args. i < length (stack w) \<longrightarrow> convertible cv (Args ! i) (stack w ! i))
            \<longrightarrow> cerr (lua_settop 0 w1) = cerr w" by (rule d2)
  qed
qed

theorem BuildArguments_positions_witness:
  "(\<exists>tuple w'. BuildArguments no_numerals True TheState
                   [TInteger 32 True, TNumber CFloat, TString, TLuaVar]
                   (empty_world\<lparr>stack := [LInteger 7, LInteger 3]\<rparr>) = Some (tuple, w')
      \<and> stack w' = [] \<and> cerr w' = []
      \<and> tuple ! 0 = VInt 7 \<and> tuple ! 1 = VNum 3 \<and> tuple ! 2 = VStr None
      \<and> tuple ! 3 = VVar (LuaVar_default empty_world))
   \<and> (\<exists>tuple w'. BuildArguments no_numerals True TheState [TBool]
                   (empty_world\<lparr>stack := [LBoolean True, LInteger 1, LInteger 2]\<rparr>)
                    = Some (tuple, w')
      \<and> stack w' = [] \<and> cerr w' = [] \<and> tuple = [VBool True])"
proof -
  let ?w = "empty_world\<lparr>stack := [LInteger 7, LInteger 3]\<rparr>"
  let ?Args = "[TInteger 32 True, TNumber CFloat, TString, TLuaVar]"
  from BuildArguments_positions [of no_numerals True ?Args ?w]
  obtain tuple w' where run: "BuildArguments no_numerals True TheState ?Args ?w = Some (tuple, w')"
    and st: "stack w' = []"
    and p_in: "\<forall>i<length ?Args. i < length (stack ?w) \<longrightarrow>
            marshalled no_numerals w' (?Args ! i) (stack ?w ! i) (tuple ! i)"
    and p_out: "\<forall>i<length ?Args. length (stack ?w) \<le> i \<longrightarrow>
            tuple ! i = GetDefault (?Args ! i) ?w"
    and ce: "(\<forall>i<length ?Args. i < length (stack ?w) \<longrightarrow>
                convertible no_numerals (?Args ! i) (stack ?w ! i)) \<longrightarrow> cerr w' = cerr ?w"
    by blast
  have "\<forall>i<length ?Args. i < length (stack ?w) \<longrightarrow>
                convertible no_numerals (?Args ! i) (stack ?w ! i)"
    by (simp add: less_Suc_eq flt_tointeger_def all_conj_distrib)
  with ce have c: "cerr w' = []" by (simp add: empty_world_def)
  from p_in [rule_format, of 0] have 0: "tuple ! 0 = VInt 7"
    by (simp add: marshalled_def static_cast_int_def)
  from p_in [rule_format, of 1] have 1: "tuple ! 1 = VNum 3"
    by (simp add: marshalled_def static_cast_float_def cast_num_def)
  from p_out [rule_format, of 2] have 2: "tuple ! 2 = VStr None"
    by simp
  from p_out [rule_format, of 3] have 3: "tuple ! 3 = VVar (LuaVar_default empty_world)"
    by (simp add: LuaVar_default_def)
  from run st c 0 1 2 3 have A: "\<exists>tuple w'. BuildArguments no_numerals True TheState ?Args ?w
        = Some (tuple, w')
      \<and> stack w' = [] \<and> cerr w' = []
      \<and> tuple ! 0 = VInt 7 \<and> tuple ! 1 = VNum 3 \<and> tuple ! 2 = VStr None
      \<and> tuple ! 3 = VVar (LuaVar_default empty_world)"
    by blast
  let ?v = "empty_world\<lparr>stack := [LBoolean True, LInteger 1, LInteger 2]\<rparr>"
  from BuildArguments_positions [of no_numerals True "[TBool]" ?v]
  obtain tuple2 w2 where run2: "BuildArguments no_numerals True TheState [TBool] ?v = Some (tuple2, w2)"
    and st2: "stack w2 = []" and l2: "length tuple2 = length [TBool]"
    and q_in: "\<forall>i<length [TBool]. i < length (stack ?v) \<longrightarrow>
            marshalled no_numerals w2 ([TBool] ! i) (stack ?v ! i) (tuple2 ! i)"
    and ce2: "(\<forall>i<length [TBool]. i < length (stack ?v) \<longrightarrow>
                convertible no_numerals ([TBool] ! i) (stack ?v ! i)) \<longrightarrow> cerr w2 = cerr ?v"
    by blast
  from ce2 have c2: "cerr w2 = []" by (simp add: empty_world_def)
  from q_in [rule_format, of 0] have "tuple2 ! 0 = VBool True" by (simp add: marshalled_def)
  with l2 have t2: "tuple2 = [VBool True]" by (cases tuple2) simp_all
  from run2 st2 c2 t2 have B: "\<exists>tuple w'. BuildArguments no_numerals True TheState [TBool] ?v
                    = Some (tuple, w')
      \<and> stack w' = [] \<and> cerr w' = [] \<and> tuple = [VBool True]"
    by blast
  from A B show ?thesis by blast
qed

subsection \<open>The trampoline of a member function\<close>

lemma BuildArgumentsWithObj_positions:
  "\<exists>tuple w'. BuildArgumentsWithObj cv checks TheState Args pObj w = Some (tuple, w')
      \<and> length tuple = Suc (length Args) \<and> tuple ! 0 = VPtr pObj
      \<and> stack w' = []
      \<and> (\<forall>i<length Args. i < length (stack w) \<longrightarrow>
            marshalled cv w' (Args ! i) (stack w ! i) (tuple ! Suc i))
      \<and> (\<forall>i<length Args. length (stack w) \<le> i \<longrightarrow>
            tuple ! Suc i = GetDefault (Args ! i) w)"
proof -
  let ?t0 = "VPtr pObj # map (\<lambda>T. zero_init T w) Args"
  have "lua_gettop w + 1 + 0 = length (stack w) + 1" "1 + length Args \<le> length ?t0"
    by (simp_all add: lua_gettop_def)
  from ProcessArg_spec [OF this, of cv checks] obtain t w1 where
    run: "ProcessArg cv checks TheState 1 (Suc 0) Args ?t0 (lua_gettop w + 1) w = Some (t, w1)"
    and lt: "length t = length ?t0"
    and old: "\<forall>j<1. t ! j = ?t0 ! j"
    and p_in: "\<forall>i<length Args. 0 + i < length (stack w) \<longrightarrow>
            marshalled cv w1 (Args ! i) (stack w ! (0 + i)) (t ! (1 + i))"
    and p_out: "\<forall>i<length Args. \<not> 0 + i < length (stack w) \<longrightarrow>
            t ! (1 + i) = GetDefault (Args ! i) w"
    by blast
  have m: "reg_mono w1 (lua_settop 0 w1)" by (simp add: reg_mono_def lua_settop_def)
  have r: "BuildArgumentsWithObj cv checks TheState Args pObj w = Some (t, lua_settop 0 w1)"
    using run by (simp add: BuildArgumentsWithObj_def)
  have e: "stack (lua_settop 0 w1) = []" by (simp add: lua_settop_def)
  have z: "t ! 0 = VPtr pObj" using old by simp
  have a: "\<forall>i<length Args. i < length (stack w) \<longrightarrow>
            marshalled cv (lua_settop 0 w1) (Args ! i) (stack w ! i) (t ! Suc i)"
  proof (intro allI impI)
    fix i assume "i < length Args" "i < length (stack w)"
    with p_in have "marshalled cv w1 (Args ! i) (stack w ! i) (t ! Suc i)" by simp
    then show "marshalled cv (lua_settop 0 w1) (Args ! i) (stack w ! i) (t ! Suc i)"
      using m by (rule marshalled_mono)
  qed
  have b: "\<forall>i<length Args. length (stack w) \<le> i \<longrightarrow> t ! Suc i = GetDefault (Args ! i) w"
    using p_out by simp
  from r e lt z a b show ?thesis by simp
qed

lemma lua_type_first: "stack w = v # params \<Longrightarrow> lua_type w 1 = type_tag v"
  by (simp add: lua_type_def lua_at_def stack_pos_def)

lemma receiver_lookup:
  assumes "stack w = LTable a # params"
  shows "lua_rawget (-2) (lua_pushstring (Some key) (lua_pushvalue 1 w))
           = Some (push (table_get w a (LString (c_str key))) (push (LTable a) w))"
proof -
  have "lua_pushvalue 1 w = push (LTable a) w"
    using assms by (simp add: lua_pushvalue_def lua_at_def stack_pos_def)
  moreover have "table_get (push x (push y w)) a k = table_get w a k" for x y k
    by (simp add: table_get_def push_def)
  ultimately show ?thesis
    by (simp add: lua_rawget_def lua_pushstring_def lua_at_push2 pop_push)
qed

lemma c_str_object: "c_str ''__object'' = ''__object''"
  by (simp add: c_str_def)

lemma remove_receiver: "stack w = v # params \<Longrightarrow> lua_remove 1 w = w\<lparr>stack := params\<rparr>"
  by (simp add: lua_remove_def)

lemma trampoline_no_table:
  "lua_type w 1 \<noteq> LUA_TTABLE \<Longrightarrow>
   CallBoundMemberFunction cv checks RetType Args pFunc w
     = Some (0, None, LUA_ERROR (''No table was passed into bound function.  Type is ''
                                 @ lua_typename (lua_type w 1)) w)"
  by (simp add: CallBoundMemberFunction_def Let_def)

lemma trampoline_no_object:
  assumes st: "stack w = LTable a # params"
    and t: "type_tag (table_get w a (LString ''__object'')) \<noteq> 7"
           "type_tag (table_get w a (LString ''__object'')) \<noteq> 2"
  shows "\<exists>w'. CallBoundMemberFunction cv checks RetType Args pFunc w = Some (0, None, w')
         \<and> cerr w' = cerr w @ [''Couldn't find userdata __object on parameter passed in.  Type is ''
                                @ lua_typename (type_tag (table_get w a (LString ''__object'')))]"
  by (simp add: t CallBoundMemberFunction_def Let_def lua_type_first [OF st] LUA_TTABLE_def
      receiver_lookup [OF st] c_str_object lua_isuserdata_def lua_type_push cerr_LUA_ERROR cerr_push)

lemma trampoline_object:
  assumes st: "stack w = LTable a # params"
    and t: "type_tag (table_get w a (LString ''__object'')) = 7
            \<or> type_tag (table_get w a (LString ''__object'')) = 2"
  shows "\<exists>tuple w1. CallBoundMemberFunction cv checks RetType Args pFunc w
                     = invoke_native checks RetType pFunc tuple w1
         \<and> length tuple = Suc (length Args)
         \<and> tuple ! 0 = to_native cv TUserData (table_get w a (LString ''__object''))
         \<and> stack w1 = []
         \<and> (\<forall>i<length Args. i < length params \<longrightarrow>
               marshalled cv w1 (Args ! i) (params ! i) (tuple ! Suc i))
         \<and> (\<forall>i<length Args. length params \<le> i \<longrightarrow>
               tuple ! Suc i = GetDefault (Args ! i) w)"
proof -
  let ?obj = "table_get w a (LString ''__object'')"
  let ?pObj = "lua_touserdata (push ?obj (push (LTable a) w)) (-1)"
  let ?w5 = "w\<lparr>stack := params\<rparr>"
  have ptr: "VPtr ?pObj = to_native cv TUserData ?obj"
    by (cases ?obj) (simp_all add: lua_touserdata_def lua_at_push)
  have call: "CallBoundMemberFunction cv checks RetType Args pFunc w
                = Call_member cv checks RetType Args ?pObj pFunc ?w5"
    using t
    by (auto simp add: CallBoundMemberFunction_def Let_def lua_type_first [OF st] LUA_TTABLE_def
        receiver_lookup [OF st] c_str_object lua_isuserdata_def lua_type_push pop_push2
        remove_receiver [OF st])
  from BuildArgumentsWithObj_positions [of cv checks Args ?pObj ?w5]
  obtain tuple w1 where
    b: "BuildArgumentsWithObj cv checks TheState Args ?pObj ?w5 = Some (tuple, w1)"
    and l: "length tuple = Suc (length Args)" and z: "tuple ! 0 = VPtr ?pObj"
    and e: "stack w1 = []"
    and p_in: "\<forall>i<length Args. i < length (stack ?w5) \<longrightarrow>
            marshalled cv w1 (Args ! i) (stack ?w5 ! i) (tuple ! Suc i)"
    and p_out: "\<forall>i<length Args. length (stack ?w5) \<le> i \<longrightarrow>
            tuple ! Suc i = GetDefault (Args ! i) ?w5"
    by blast
  have d: "GetDefault T ?w5 = GetDefault T w" for T
    by (rule GetDefault_cong) simp
  have c: "CallBoundMemberFunction cv checks RetType Args pFunc w
          = invoke_native checks RetType pFunc tuple w1"
    using call b by (simp add: Call_member_def)
  have a1: "\<forall>i<length Args. i < length params \<longrightarrow>
               marshalled cv w1 (Args ! i) (params ! i) (tuple ! Suc i)"
    using p_in by simp
  have a2: "\<forall>i<length Args. length params \<le> i \<longrightarrow> tuple ! Suc i = GetDefault (Args ! i) w"
    using p_out by (simp add: d)
  from c l z e a1 a2 ptr show ?thesis by metis
qed

text \<open>
  C7, amended. When the first argument is missing or no table, the trampoline reports it
  and returns 0 without invoking the native function; likewise when the table's raw
  \<open>__object\<close> entry is absent or neither a full nor a light userdata. When \<open>__object\<close> is a
  light or a full userdata, the native function is applied to a tuple whose first position
  is what \<open>lua_touserdata\<close> gives for it, the pointer of a light userdata or the address of
  the block of a full one (not a pointer stored in the block), and whose other positions
  are the declared parameters, rebuilt from the stack without the receiver table.
\<close>

theorem CallBoundMemberFunction_receiver:
  "(lua_type w 1 \<noteq> LUA_TTABLE \<longrightarrow>
      CallBoundMemberFunction cv checks RetType Args pFunc w
        = Some (0, None, LUA_ERROR (''No table was passed into bound function.  Type is ''
                                    @ lua_typename (lua_type w 1)) w))
   \<and> (stack w = LTable a # params
        \<and> type_tag (table_get w a (LString ''__object'')) \<noteq> 7
        \<and> type_tag (table_get w a (LString ''__object'')) \<noteq> 2 \<longrightarrow>
      (\<exists>w'. CallBoundMemberFunction cv checks RetType Args pFunc w = Some (0, None, w')
         \<and> cerr w' = cerr w @ [''Couldn't find userdata __object on parameter passed in.  Type is ''
                                @ lua_typename (type_tag (table_get w a (LString ''__object'')))]))
   \<and> (stack w = LTable a # params
        \<and> (type_tag (table_get w a (LString ''__object'')) = 7
             \<or> type_tag (table_get w a (LString ''__object'')) = 2) \<longrightarrow>
      (\<exists>tuple w1. CallBoundMemberFunction cv checks RetType Args pFunc w
                     = invoke_native checks RetType pFunc tuple w1
         \<and> length tuple = Suc (length Args)
         \<and> (\<forall>p. table_get w a (LString ''__object'') = LLightUserData p \<longrightarrow> tuple ! 0 = VPtr p)
         \<and> (\<forall>b. table_get w a (LString ''__object'') = LUserData b \<longrightarrow>
                tuple ! 0 = VPtr (BlockPtr b))
         \<and> stack w1 = []
         \<and> (\<forall>i<length Args. i < length params \<longrightarrow>
               marshalled cv w1 (Args ! i) (params ! i) (tuple ! Suc i))
         \<and> (\<forall>i<length Args. length params \<le> i \<longrightarrow>
               tuple ! Suc i = GetDefault (Args ! i) w)))"
proof -
  let ?obj = "table_get w a (LString ''__object'')"
  have 3: "\<exists>tuple w1. CallBoundMemberFunction cv checks RetType Args pFunc w
                     = invoke_native checks RetType pFunc tuple w1
         \<and> length tuple = Suc (length Args)
         \<and> (\<forall>p. ?obj = LLightUserData p \<longrightarrow> tuple ! 0 = VPtr p)
         \<and> (\<forall>b. ?obj = LUserData b \<longrightarrow> tuple ! 0 = VPtr (BlockPtr b))
         \<and> stack w1 = []
         \<and> (\<forall>i<length Args. i < length params \<longrightarrow>
               marshalled cv w1 (Args ! i) (params ! i) (tuple ! Suc i))
         \<and> (\<forall>i<length Args. length params \<le> i \<longrightarrow>
               tuple ! Suc i = GetDefault (Args ! i) w)"
    if st: "stack w = LTable a # params" and t: "type_tag ?obj = 7 \<or> type_tag ?obj = 2"
  proof -
    from trampoline_object [OF st t, of cv checks RetType Args pFunc] obtain tuple w1 where
      c: "CallBoundMemberFunction cv checks RetType Args pFunc w
            = invoke_native checks RetType pFunc tuple w1"
      and l: "length tuple = Suc (length Args)"
      and z: "tuple ! 0 = to_native cv TUserData ?obj"
      and e: "stack w1 = []"
      and a1: "\<forall>i<length Args. i < length params \<longrightarrow>
               marshalled cv w1 (Args ! i) (params ! i) (tuple ! Suc i)"
      and a2: "\<forall>i<length Args. length params \<le> i \<longrightarrow> tuple ! Suc i = GetDefault (Args ! i) w"
      by blast
    from z have z1: "\<forall>p. ?obj = LLightUserData p \<longrightarrow> tuple ! 0 = VPtr p" by simp
    from z have z2: "\<forall>b. ?obj = LUserData b \<longrightarrow> tuple ! 0 = VPtr (BlockPtr b)" by simp
    show ?thesis
    proof (intro exI conjI)
      show "CallBoundMemberFunction cv checks RetType Args pFunc w
            = invoke_native checks RetType pFunc tuple w1" by (rule c)
      show "length tuple = Suc (length Args)" by (rule l)
      show "\<forall>p. ?obj = LLightUserData p \<longrightarrow> tuple ! 0 = VPtr p" by (rule z1)
      show "\<forall>b. ?obj = LUserData b \<longrightarrow> tuple ! 0 = VPtr (BlockPtr b)" by (rule z2)
      show "stack w1 = []" by (rule e)
      show "\<forall>i<length Args. i < length params \<longrightarrow>
               marshalled cv w1 (Args ! i) (params ! i) (tuple ! Suc i)" by (rule a1)
      show "\<forall>i<length Args. length params \<le> i \<longrightarrow> tuple ! Suc i = GetDefault (Args ! i) w"
        by (rule a2)
    qed
  qed
  show ?thesis
    using trampoline_no_table [of w cv checks RetType Args pFunc]
      trampoline_no_object [of w a params cv checks RetType Args pFunc] 3
    by blast
qed

text \<open>
  C7, as the claim states it, fails: \<open>lua_isuserdata\<close> is true for a light userdata too, so
  a receiver whose \<open>__object\<close> is a light pointer is accepted, nothing is reported, and the
  native function runs with that pointer.
\<close>

theorem light_pointer_receiver_is_accepted:
  "CallBoundMemberFunction no_numerals True None [TInteger 32 True] returns_nothing
     (receiver_world (LLightUserData (NativePtr 42)))
   = Some (0, Some [VPtr (NativePtr 42), VInt 5],
           (receiver_world (LLightUserData (NativePtr 42)))\<lparr>stack := []\<rparr>)
   \<and> cerr ((receiver_world (LLightUserData (NativePtr 42)))\<lparr>stack := []\<rparr>) = []"
  by code_simp

theorem CallBoundMemberFunction_receiver_witness:
  "CallBoundMemberFunction no_numerals True None [TInteger 32 True] returns_nothing empty_world
     = Some (0, None,
             LUA_ERROR ''No table was passed into bound function.  Type is no value'' empty_world)
   \<and> (\<exists>w'. CallBoundMemberFunction no_numerals True None [TInteger 32 True] returns_nothing
              (receiver_world (LInteger 0)) = Some (0, None, w')
         \<and> cerr w' = [''Couldn't find userdata __object on parameter passed in.  Type is number''])
   \<and> (\<exists>tuple w1. CallBoundMemberFunction no_numerals True None [TInteger 32 True] returns_nothing
                    (receiver_world (LUserData 0))
                    = invoke_native True None returns_nothing tuple w1
         \<and> length tuple = 2 \<and> tuple ! 0 = VPtr (BlockPtr 0) \<and> tuple ! 1 = VInt 5
         \<and> stack w1 = [])
   \<and> udata (receiver_world (LUserData 0)) ! 0 = NativePtr 42"
proof -
  let ?C = "CallBoundMemberFunction no_numerals True None [TInteger 32 True] returns_nothing"
  have t: "table_get (receiver_world obj) 0 (LString ''__object'') = obj" for obj
    by (simp add: table_get_def receiver_world_def empty_world_def)
  have s: "stack (receiver_world obj) = LTable 0 # [LInteger 5]" for obj
    by (simp add: receiver_world_def empty_world_def)
  have c: "cerr (receiver_world obj) = []" for obj
    by (simp add: receiver_world_def empty_world_def)
  have n: "lua_type empty_world 1 = LUA_TNONE"
    by (simp add: lua_type_def lua_at_def stack_pos_def empty_world_def)
  note inst = CallBoundMemberFunction_receiver
         [where cv = no_numerals and checks = True and RetType = None
            and Args = "[TInteger 32 True]" and pFunc = returns_nothing]
  from inst [where w = empty_world]
  have "lua_type empty_world 1 \<noteq> LUA_TTABLE \<longrightarrow> ?C empty_world
     = Some (0, None, LUA_ERROR (''No table was passed into bound function.  Type is ''
                                 @ lua_typename (lua_type empty_world 1)) empty_world)"
    by blast
  then have 1: "?C empty_world
     = Some (0, None,
             LUA_ERROR ''No table was passed into bound function.  Type is no value'' empty_world)"
    by (simp add: n LUA_TNONE_def LUA_TTABLE_def lua_typename_def)
  from inst [where w = "receiver_world (LInteger 0)" and a = 0 and params = "[LInteger 5]"]
  have "\<exists>w'. ?C (receiver_world (LInteger 0)) = Some (0, None, w')
         \<and> cerr w' = cerr (receiver_world (LInteger 0))
             @ [''Couldn't find userdata __object on parameter passed in.  Type is ''
                @ lua_typename (type_tag (LInteger 0))]"
    by (simp add: t s)
  then have 2: "\<exists>w'. ?C (receiver_world (LInteger 0)) = Some (0, None, w')
         \<and> cerr w' = [''Couldn't find userdata __object on parameter passed in.  Type is number'']"
    by (simp add: c lua_typename_def)
  from inst [where w = "receiver_world (LUserData 0)" and a = 0 and params = "[LInteger 5]"]
  obtain tuple w1 where
    r: "?C (receiver_world (LUserData 0)) = invoke_native True None returns_nothing tuple w1"
    and l: "length tuple = Suc (length [TInteger 32 True])"
    and z: "\<forall>b. LUserData 0 = LUserData b \<longrightarrow> tuple ! 0 = VPtr (BlockPtr b)"
    and e: "stack w1 = []"
    and p: "\<forall>i<length [TInteger 32 True]. i < length [LInteger 5] \<longrightarrow>
               marshalled no_numerals w1 ([TInteger 32 True] ! i) ([LInteger 5] ! i) (tuple ! Suc i)"
    by (auto simp add: t s)
  from p [rule_format, of 0] have o: "tuple ! 1 = VInt 5"
    by (simp add: marshalled_def static_cast_int_def)
  from l have l2: "length tuple = 2" by simp
  from z have z2: "tuple ! 0 = VPtr (BlockPtr 0)" by simp
  from r l2 z2 o e have 3: "\<exists>tuple w1. ?C (receiver_world (LUserData 0))
                    = invoke_native True None returns_nothing tuple w1
         \<and> length tuple = 2 \<and> tuple ! 0 = VPtr (BlockPtr 0) \<and> tuple ! 1 = VInt 5
         \<and> stack w1 = []"
    by blast
  have 4: "udata (receiver_world (LUserData 0)) ! 0 = NativePtr 42"
    by (simp add: receiver_world_def empty_world_def)
  from 1 2 3 4 show ?thesis by blast
qed

subsection \<open>Releasing and creating handles\<close>

lemma RefCount_at_update:
  "RefCount_at (w\<lparr>refcounts := (refcounts w)[p := x]\<rparr>) q
     = (if q = p \<and> p < length (refcounts w) then x else RefCount_at w q)"
  by (simp add: RefCount_at_def)

lemma RefCount_at_LUA_ERROR: "RefCount_at (LUA_ERROR m w) q = RefCount_at w q"
  by (simp add: RefCount_at_def LUA_ERROR_def)

lemma rc_step_update:
  "rc_step (Some p) w (w\<lparr>refcounts := (refcounts w)[p := x]\<rparr>)"
  by (simp add: rc_step_def RefCount_at_update)

lemma rc_step_LUA_ERROR: "rc_step p w (LUA_ERROR m w)"
  by (simp add: rc_step_def RefCount_at_LUA_ERROR) (simp add: LUA_ERROR_def)

lemma Decrement_live:
  assumes "RefCount_at w p \<noteq> None"
  shows "\<exists>z w'. Decrement checks p w = Some (z, w') \<and> rc_step (Some p) w w'"
proof -
  from assms obtain c where c: "RefCount_at w p = Some c" by auto
  show ?thesis
    by (auto simp add: Decrement_def c rc_step_update rc_step_LUA_ERROR)
qed

lemma rc_step_unref_delete:
  "rc_step (Some p) w w1 \<Longrightarrow> rc_step (Some p) w (RefCount_delete p (luaL_unref r w1))"
  by (auto simp: rc_step_def RefCount_delete_def luaL_unref_def RefCount_at_def)

lemma ClearRef_live:
  assumes "live_rc w h"
  shows "\<exists>w'. ClearRef checks w h = Some (w', nil_of h) \<and> rc_step (m_pRefCount h) w w'"
proof (cases "m_pRefCount h")
  case None
  with assms have "m_reference h = LUA_REFNIL" by (simp add: live_rc_def)
  with None show ?thesis by (simp add: ClearRef_def nil_of_def rc_step_def)
next
  case (Some p)
  with assms have s: "m_pState h = TheState" and r: "RefCount_at w p \<noteq> None"
    and n: "m_reference h \<noteq> LUA_REFNIL"
    by (simp_all add: live_rc_def)
  from Decrement_live [OF r, of checks] obtain z w1 where
    d: "Decrement checks p w = Some (z, w1)" and st: "rc_step (Some p) w w1" by blast
  show ?thesis
    using rc_step_unref_delete [OF st, of "m_reference h"] st
    by (simp add: ClearRef_def Some n d s nil_of_def)
qed


lemma live_rc_step:
  "live_rc w h \<Longrightarrow> rc_step p w w' \<Longrightarrow> m_pRefCount h = None \<or> m_pRefCount h \<noteq> p \<Longrightarrow>
   live_rc w' h"
  by (auto simp: live_rc_def rc_step_def split: option.splits)

lemma live_rc_nil: "live_rc w (nil_of h)"
  by (simp add: live_rc_def nil_of_def)

lemma stack_snoc_push: "stack w = s @ [v] \<Longrightarrow> w = push v (w\<lparr>stack := s\<rparr>)"
  by (simp add: push_def)

lemma created:
  assumes "CreateFromStack checks TheState (push v w) = Some (w', h)"
  shows "stack w' = stack w \<and> tables w' = tables w \<and> live_rc w' h
       \<and> length (refcounts w) \<le> length (refcounts w')
       \<and> (\<forall>q. RefCount_at w q \<noteq> None \<longrightarrow> RefCount_at w' q = RefCount_at w q)
       \<and> (\<forall>q. RefCount_at w q \<noteq> None \<longrightarrow> m_pRefCount h \<noteq> Some q)"
  using assms
  by (auto simp: CreateFromStack_push live_rc_def RefCount_at_def nth_append LuaVar_ctor_def
      LUA_REFNIL_def split: if_splits)

lemma live_rc_created:
  assumes "CreateFromStack checks TheState (push v w) = Some (w', h)" and "live_rc w g"
  shows "live_rc w' g \<and> (m_pRefCount g = None \<or> m_pRefCount g \<noteq> m_pRefCount h)"
  using created [OF assms(1)] assms(2)
  by (auto simp: live_rc_def split: option.splits)

lemma Move_live:
  assumes "live_rc w this"
  shows "\<exists>w'. Move checks w this right = Some (w', right, nil_of right\<lparr>m_pState := NullState\<rparr>)
           \<and> rc_step (m_pRefCount this) w w'"
proof -
  from ClearRef_live [OF assms, of checks] obtain w' where
    "ClearRef checks w this = Some (w', nil_of this)" "rc_step (m_pRefCount this) w w'"
    by blast
  then show ?thesis by (simp add: Move_def nil_of_def)
qed

subsection \<open>The table iterator\<close>

lemma next_entry_in: "next_entry k es = Some (Some e) \<Longrightarrow> e \<in> set es"
  by (induction es) (auto split: if_splits list.splits)

lemma next_entry_key: "k \<in> fst ` set es \<Longrightarrow> next_entry k es \<noteq> None"
  by (induction es) auto

lemma lua_at_top2:
  "stack w = base @ [x, y] \<Longrightarrow> lua_at w (-2) = Some x \<and> lua_at w (-1) = Some y"
  by (auto simp: lua_at_def stack_pos_def nth_append nat_add_distrib)

lemma lua_next_at:
  assumes "stack w = base @ [LTable a, k]" and "a < length (tables w)"
  shows "lua_next (-2) w
     = (case next_entry k (tables w ! a) of
          None \<Rightarrow> None
        | Some None \<Rightarrow> Some (0, w\<lparr>stack := base @ [LTable a]\<rparr>)
        | Some (Some (k', v')) \<Rightarrow> Some (1, w\<lparr>stack := base @ [LTable a, k', v']\<rparr>))"
  using lua_at_top2 [OF assms(1)] assms
  by (auto simp: lua_next_def lua_pop_def push_def split: option.splits)


lemma live_rc_stack: "live_rc (w\<lparr>stack := s\<rparr>) h = live_rc w h"
  by (simp add: live_rc_def RefCount_at_def split: option.splits)

lemma create_exists:
  "\<exists>w' h. CreateFromStack checks TheState (push v w) = Some (w', h)"
  by (simp add: CreateFromStack_push)

lemma SetToEnd_inv:
  assumes k: "live_rc w (m_key it)" and v: "live_rc w (m_value it)"
    and d: "m_pRefCount (m_key it) = None \<or> m_pRefCount (m_key it) \<noteq> m_pRefCount (m_value it)"
    and s: "m_pState_it it = TheState" and st: "stack w = base @ [t]"
  shows "\<exists>it' w'. SetToEnd checks it w = Some (it', w') \<and> it_inv w' base a it'
           \<and> tables w' = tables w"
proof -
  from ClearRef_live [OF k, of checks] obtain w1 where
    c1: "ClearRef checks w (m_key it) = Some (w1, nil_of (m_key it))"
    and r1: "rc_step (m_pRefCount (m_key it)) w w1" by blast
  have "m_pRefCount (m_value it) = None \<or> m_pRefCount (m_value it) \<noteq> m_pRefCount (m_key it)"
    using d by auto
  with v r1 have v1: "live_rc w1 (m_value it)" by (rule live_rc_step)
  from ClearRef_live [OF v1, of checks] obtain w2 where
    c2: "ClearRef checks w1 (m_value it) = Some (w2, nil_of (m_value it))"
    and r2: "rc_step (m_pRefCount (m_value it)) w1 w2" by blast
  let ?it = "it\<lparr>m_isAtEnd := True, m_key := nil_of (m_key it), m_value := nil_of (m_value it)\<rparr>"
  have run: "SetToEnd checks it w = Some (?it, lua_pop 1 w2)"
    by (simp add: SetToEnd_def c1 c2 s)
  have stk: "stack (lua_pop 1 w2) = base"
    using r1 r2 st by (simp add: rc_step_def lua_pop_def)
  have tb: "tables (lua_pop 1 w2) = tables w"
    using r1 r2 by (simp add: rc_step_def lua_pop_def)
  have "it_inv (lua_pop 1 w2) base a ?it"
    using stk by (simp add: it_inv_def live_rc_nil) (simp add: nil_of_def)
  with run tb show ?thesis by blast
qed


lemma op_inc_inv:
  assumes inv: "it_inv w base a it" and valid: "\<not> m_isAtEnd it" and a: "a < length (tables w)"
  shows "\<exists>it' w'. op_inc checks it w = Some (it', w') \<and> it_inv w' base a it'
           \<and> tables w' = tables w"
proof -
  let ?es = "tables w ! a"
  from inv valid obtain k where
    lk: "live_rc w (m_key it)" and lv: "live_rc w (m_value it)"
    and d: "m_pRefCount (m_key it) = None \<or> m_pRefCount (m_key it) \<noteq> m_pRefCount (m_value it)"
    and ps: "m_pState_it it = TheState"
    and kin: "k \<in> fst ` set ?es" and st: "stack w = base @ [LTable a, k]"
    by (auto simp: it_inv_def)
  note nx = lua_next_at [OF st a]
  from next_entry_key [OF kin] obtain r where r: "next_entry k ?es = Some r" by auto
  show ?thesis
  proof (cases r)
    case None
    let ?w1 = "w\<lparr>stack := base @ [LTable a]\<rparr>"
    have n: "lua_next (-2) w = Some (0, ?w1)" using nx r None by simp
    have "live_rc ?w1 (m_key it)" "live_rc ?w1 (m_value it)" "stack ?w1 = base @ [LTable a]"
      using lk lv by (simp_all add: live_rc_stack)
    from SetToEnd_inv [OF this(1,2) d ps this(3), of checks a]
    obtain it' w' where "SetToEnd checks it ?w1 = Some (it', w')" "it_inv w' base a it'"
      "tables w' = tables ?w1" by blast
    then show ?thesis by (simp add: op_inc_def ps n)
  next
    case (Some e)
    obtain k' v' where e: "e = (k', v')" by (cases e)
    let ?w1 = "w\<lparr>stack := base @ [LTable a, k', v']\<rparr>"
    have n: "lua_next (-2) w = Some (1, ?w1)" using nx r Some e by simp
    have kin': "k' \<in> fst ` set ?es"
      using next_entry_in [of k ?es e] r Some e by force
    have pv: "lua_pushvalue (-2) ?w1 = push k' ?w1"
      by (simp add: lua_pushvalue_def lua_at_def stack_pos_def nth_append)
    from create_exists obtain w3 tk where
      c1: "CreateFromStack checks TheState (push k' ?w1) = Some (w3, tk)" by blast
    note cr1 = created [OF c1]
    have lk1: "live_rc ?w1 (m_key it)" and lv1: "live_rc ?w1 (m_value it)"
      using lk lv by (simp_all add: live_rc_stack)
    from live_rc_created [OF c1 lk1] have lk3: "live_rc w3 (m_key it)"
      and dk: "m_pRefCount (m_key it) = None \<or> m_pRefCount (m_key it) \<noteq> m_pRefCount tk"
      by simp_all
    from live_rc_created [OF c1 lv1] have lv3: "live_rc w3 (m_value it)"
      and dv: "m_pRefCount (m_value it) = None \<or> m_pRefCount (m_value it) \<noteq> m_pRefCount tk"
      by simp_all
    from Move_live [OF lk3, of checks tk] obtain w4 where
      m1: "Move checks w3 (m_key it) tk = Some (w4, tk, nil_of tk\<lparr>m_pState := NullState\<rparr>)"
      and r4: "rc_step (m_pRefCount (m_key it)) w3 w4" by blast
    have ltk3: "live_rc w3 tk" using cr1 by simp
    have "m_pRefCount tk = None \<or> m_pRefCount tk \<noteq> m_pRefCount (m_key it)"
      using dk by auto
    with ltk3 r4 have ltk4: "live_rc w4 tk" by (rule live_rc_step)
    have "m_pRefCount (m_value it) = None \<or> m_pRefCount (m_value it) \<noteq> m_pRefCount (m_key it)"
      using d by auto
    with lv3 r4 have lv4: "live_rc w4 (m_value it)" by (rule live_rc_step)
    have st4: "stack w4 = (base @ [LTable a, k']) @ [v']"
      using r4 cr1 by (simp add: rc_step_def)
    let ?w4' = "w4\<lparr>stack := base @ [LTable a, k']\<rparr>"
    have w4: "w4 = push v' ?w4'" using st4 by (rule stack_snoc_push)
    from create_exists obtain w5 tv where
      c2: "CreateFromStack checks TheState (push v' ?w4') = Some (w5, tv)" by blast
    note cr2 = created [OF c2]
    have c2': "CreateFromStack checks TheState w4 = Some (w5, tv)" using c2 w4 by simp
    have lv4': "live_rc ?w4' (m_value it)" and ltk4': "live_rc ?w4' tk"
      using lv4 ltk4 by (simp_all add: live_rc_stack)
    from live_rc_created [OF c2 lv4'] have lv5: "live_rc w5 (m_value it)"
      and dv2: "m_pRefCount (m_value it) = None \<or> m_pRefCount (m_value it) \<noteq> m_pRefCount tv"
      by simp_all
    from live_rc_created [OF c2 ltk4'] have ltk5: "live_rc w5 tk"
      and dkv: "m_pRefCount tk = None \<or> m_pRefCount tk \<noteq> m_pRefCount tv"
      by simp_all
    from Move_live [OF lv5, of checks tv] obtain w6 where
      m2: "Move checks w5 (m_value it) tv = Some (w6, tv, nil_of tv\<lparr>m_pState := NullState\<rparr>)"
      and r6: "rc_step (m_pRefCount (m_value it)) w5 w6" by blast
    have "m_pRefCount tk = None \<or> m_pRefCount tk \<noteq> m_pRefCount (m_value it)"
      using dv by auto
    with ltk5 r6 have ltk6: "live_rc w6 tk" by (rule live_rc_step)
    have ltv5: "live_rc w5 tv" using cr2 by simp
    have "m_pRefCount tv = None \<or> m_pRefCount tv \<noteq> m_pRefCount (m_value it)"
      using dv2 by auto
    with ltv5 r6 have ltv6: "live_rc w6 tv" by (rule live_rc_step)
    have st6: "stack w6 = base @ [LTable a, k']"
      using r6 cr2 by (simp add: rc_step_def)
    have tb6: "tables w6 = tables w"
      using r6 cr2 r4 cr1 by (simp add: rc_step_def)
    let ?it = "it\<lparr>m_key := tk, m_value := tv\<rparr>"
    have run: "op_inc checks it w = Some (?it, w6)"
      by (simp add: op_inc_def ps n pv c1 m1 c2' m2)
    have "it_inv w6 base a ?it"
      using ltk6 ltv6 dkv valid ps st6 kin' tb6 by (auto simp: it_inv_def)
    with run tb6 show ?thesis by blast
  qed
qed


lemma holds_value_of:
  "holds w h v \<Longrightarrow> v \<noteq> LNil \<Longrightarrow> IsValid h \<and> value_of w h = v \<and> m_pState h = TheState"
  by (auto simp: holds_def IsValid_def value_of_def registry_at_def LUA_REFNIL_def)

lemma next_entry_nil:
  "next_entry LNil es = Some (case es of [] \<Rightarrow> None | e # _ \<Rightarrow> Some e)"
  by (cases es) simp_all

lemma live_rc_default: "live_rc w (LuaVar_default w')"
  by (simp add: live_rc_def LuaVar_default_def)

lemma InternalBegin_inv:
  assumes h: "holds w this (LTable a)" and a: "a < length (tables w)"
  shows "\<exists>it w'. InternalBegin checks this w = Some (it, w') \<and> it_inv w' (stack w) a it
           \<and> tables w' = tables w"
proof -
  let ?es = "tables w ! a"
  from holds_value_of [OF h] have v: "IsValid this" and vo: "value_of w this = LTable a"
    and ps: "m_pState this = TheState" by simp_all
  let ?w1 = "push (LTable a) w"
  let ?w2 = "push LNil ?w1"
  have p: "PushValueToStack this True w = Some (True, ?w1)"
    using ps vo by (simp add: PushValueToStack_allowNil)
  have t: "lua_istable ?w1 (-1)" by (simp add: lua_istable_def lua_type_push LUA_TTABLE_def)
  have st2: "stack ?w2 = stack w @ [LTable a, LNil]" by (simp add: push_def)
  have a2: "a < length (tables ?w2)" using a by (simp add: push_def)
  have tb2: "tables ?w2 ! a = ?es" by (simp add: push_def)
  note nx = lua_next_at [OF st2 a2, unfolded tb2 next_entry_nil]
  show ?thesis
  proof (cases ?es)
    case Nil
    let ?w3 = "?w2\<lparr>stack := stack w @ [LTable a]\<rparr>"
    have n: "lua_next (-2) ?w2 = Some (0, ?w3)" using nx Nil by simp
    have run: "InternalBegin checks this w = Some (TableIterator_default ?w3, lua_pop 1 ?w3)"
      using v t by (simp add: InternalBegin_def p n)
    have "it_inv (lua_pop 1 ?w3) (stack w) a (TableIterator_default ?w3)"
      by (simp add: it_inv_def TableIterator_default_def live_rc_default)
         (simp add: LuaVar_default_def lua_pop_def)
    moreover have "tables (lua_pop 1 ?w3) = tables w" by (simp add: lua_pop_def push_def)
    ultimately show ?thesis using run by blast
  next
    case (Cons e es')
    obtain k' v' where e: "e = (k', v')" by (cases e)
    let ?w3 = "?w2\<lparr>stack := stack w @ [LTable a, k', v']\<rparr>"
    have n: "lua_next (-2) ?w2 = Some (1, ?w3)" using nx Cons e by simp
    have kin': "k' \<in> fst ` set ?es" using Cons e by force
    have pv: "lua_pushvalue (-2) ?w3 = push k' ?w3"
      by (simp add: lua_pushvalue_def lua_at_def stack_pos_def nth_append)
    from create_exists obtain w5 key where
      c1: "CreateFromStack checks TheState (push k' ?w3) = Some (w5, key)" by blast
    note cr1 = created [OF c1]
    have st5: "stack w5 = (stack w @ [LTable a, k']) @ [v']" using cr1 by simp
    let ?w5' = "w5\<lparr>stack := stack w @ [LTable a, k']\<rparr>"
    have w5: "w5 = push v' ?w5'" using st5 by (rule stack_snoc_push)
    from create_exists obtain w6 val where
      c2: "CreateFromStack checks TheState (push v' ?w5') = Some (w6, val)" by blast
    note cr2 = created [OF c2]
    have c2': "CreateFromStack checks TheState w5 = Some (w6, val)" using c2 w5 by simp
    have "live_rc ?w5' key" using cr1 by (simp add: live_rc_stack)
    from live_rc_created [OF c2 this] have lk6: "live_rc w6 key"
      and dkv: "m_pRefCount key = None \<or> m_pRefCount key \<noteq> m_pRefCount val" by simp_all
    have lv6: "live_rc w6 val" using cr2 by simp
    have st6: "stack w6 = stack w @ [LTable a, k']" using cr2 by simp
    have tb6: "tables w6 = tables w" using cr2 cr1 by (simp add: push_def)
    let ?it = "\<lparr>m_pState_it = m_pState this, m_key = key, m_value = val, m_isAtEnd = False\<rparr>"
    have run: "InternalBegin checks this w = Some (?it, w6)"
      using v t by (simp add: InternalBegin_def p n pv ps c1 c2')
    have "it_inv w6 (stack w) a ?it"
      using lk6 lv6 dkv ps st6 kin' tb6 by (auto simp: it_inv_def)
    with run tb6 show ?thesis by blast
  qed
qed

lemma advance_inv:
  assumes "it_inv w base a it" and "a < length (tables w)"
  shows "\<exists>it' w'. advance checks n it w = Some (it', w') \<and> it_inv w' base a it'
           \<and> tables w' = tables w"
  using assms
proof (induction n arbitrary: it w)
  case 0
  then show ?case by simp
next
  case (Suc n)
  show ?case
  proof (cases "m_isAtEnd it")
    case True
    with Suc.prems show ?thesis by simp
  next
    case False
    from op_inc_inv [OF Suc.prems(1) False Suc.prems(2), of checks] obtain it1 w1 where
      s: "op_inc checks it w = Some (it1, w1)" and i: "it_inv w1 base a it1"
      and t: "tables w1 = tables w" by blast
    from Suc.prems(2) t have "a < length (tables w1)" by simp
    from Suc.IH [OF i this] obtain it' w' where
      "advance checks n it1 w1 = Some (it', w')" "it_inv w' base a it'" "tables w' = tables w1"
      by blast
    with s t False show ?thesis by simp
  qed
qed

lemma dtor_inv:
  assumes inv: "it_inv w base a it"
  shows "\<exists>w'. TableIterator_dtor checks it w = Some w' \<and> stack w' = base"
proof -
  let ?w1 = "if \<not> m_isAtEnd it then lua_pop 2 w else w"
  from inv have lk: "live_rc w (m_key it)" and lv: "live_rc w (m_value it)"
    and d: "m_pRefCount (m_key it) = None \<or> m_pRefCount (m_key it) \<noteq> m_pRefCount (m_value it)"
    and ps: "\<not> m_isAtEnd it \<Longrightarrow> m_pState_it it = TheState"
    and st1: "stack ?w1 = base"
    by (auto simp: it_inv_def lua_pop_def split: if_splits)
  have first: "(if \<not> m_isAtEnd it
            then (if m_pState_it it = NullState then None else Some (lua_pop 2 w))
            else Some w) = Some ?w1"
    using ps by auto
  have lk1: "live_rc ?w1 (m_key it)" and lv1: "live_rc ?w1 (m_value it)"
    using lk lv by (simp_all add: lua_pop_def live_rc_stack)
  from ClearRef_live [OF lv1, of checks] obtain w2 where
    c1: "ClearRef checks ?w1 (m_value it) = Some (w2, nil_of (m_value it))"
    and r2: "rc_step (m_pRefCount (m_value it)) ?w1 w2" by blast
  from lk1 r2 d have lk2: "live_rc w2 (m_key it)" by (rule live_rc_step)
  from ClearRef_live [OF lk2, of checks] obtain w3 where
    c2: "ClearRef checks w2 (m_key it) = Some (w3, nil_of (m_key it))"
    and r3: "rc_step (m_pRefCount (m_key it)) w2 w3" by blast
  have "TableIterator_dtor checks it w = Some w3"
    unfolding TableIterator_dtor_def first by (simp add: LuaVar_dtor_def c1 c2)
  moreover have "stack w3 = base" using r3 r2 st1 by (simp add: rc_step_def)
  ultimately show ?thesis by blast
qed

text \<open>
  C9. An iterator begun on a table handle and advanced any number of times (stopping at
  the end) is either at the end, with the stack as it was before \<open>begin\<close>, or holds a pair,
  with exactly the table and one of its keys above that stack. Its destructor returns
  and leaves the stack as it was before \<open>begin\<close>: it pops those two slots in the second
  case and nothing in the first.
\<close>

theorem early_exit_restores_stack:
  assumes "holds w this (LTable a)" and "a < length (tables w)"
  shows "\<exists>it0 w0 it w1 w2.
      InternalBegin checks this w = Some (it0, w0)
    \<and> advance checks n it0 w0 = Some (it, w1)
    \<and> TableIterator_dtor checks it w1 = Some w2
    \<and> (m_isAtEnd it \<longrightarrow> stack w1 = stack w)
    \<and> (\<not> m_isAtEnd it \<longrightarrow>
          (\<exists>k. k \<in> fst ` set (tables w ! a) \<and> stack w1 = stack w @ [LTable a, k]))
    \<and> stack w2 = stack w"
proof -
  from InternalBegin_inv [OF assms, of checks] obtain it0 w0 where
    b: "InternalBegin checks this w = Some (it0, w0)" and i0: "it_inv w0 (stack w) a it0"
    and t0: "tables w0 = tables w" by blast
  from assms(2) t0 have "a < length (tables w0)" by simp
  from advance_inv [OF i0 this, of checks n] obtain it w1 where
    ad: "advance checks n it0 w0 = Some (it, w1)" and i1: "it_inv w1 (stack w) a it"
    and t1: "tables w1 = tables w0" by blast
  from dtor_inv [OF i1, of checks] obtain w2 where
    dt: "TableIterator_dtor checks it w1 = Some w2" and s2: "stack w2 = stack w" by blast
  from i1 t1 t0 have "m_isAtEnd it \<longrightarrow> stack w1 = stack w"
    and "\<not> m_isAtEnd it \<longrightarrow>
          (\<exists>k. k \<in> fst ` set (tables w ! a) \<and> stack w1 = stack w @ [LTable a, k])"
    by (auto simp: it_inv_def)
  with b ad dt s2 show ?thesis by blast
qed

theorem early_exit_restores_stack_witness:
  "(\<exists>it0 w0 it w1 w2.
      InternalBegin True table_handle abc_world = Some (it0, w0)
    \<and> advance True 1 it0 w0 = Some (it, w1)
    \<and> TableIterator_dtor True it w1 = Some w2
    \<and> stack w2 = stack abc_world)
   \<and> do { (it0, w0) \<leftarrow> InternalBegin True table_handle abc_world;
          (it, w1) \<leftarrow> advance True 1 it0 w0;
          w2 \<leftarrow> TableIterator_dtor True it w1;
          Some (m_isAtEnd it, stack w1, stack w2) }
       = Some (False, [LTable 0, LString ''b''], [])"
proof -
  have h: "holds abc_world table_handle (LTable 0)"
    by (simp add: holds_def abc_world_def table_handle_def empty_world_def LUA_REFNIL_def)
  have a: "0 < length (tables abc_world)"
    by (simp add: abc_world_def empty_world_def)
  from early_exit_restores_stack [OF h a, of True 1]
  have 1: "\<exists>it0 w0 it w1 w2.
      InternalBegin True table_handle abc_world = Some (it0, w0)
    \<and> advance True 1 it0 w0 = Some (it, w1)
    \<and> TableIterator_dtor True it w1 = Some w2
    \<and> stack w2 = stack abc_world"
    by blast
  have 2: "do { (it0, w0) \<leftarrow> InternalBegin True table_handle abc_world;
          (it, w1) \<leftarrow> advance True 1 it0 w0;
          w2 \<leftarrow> TableIterator_dtor True it w1;
          Some (m_isAtEnd it, stack w1, stack w2) }
       = Some (False, [LTable 0, LString ''b''], [])"
    by code_simp
  from 1 2 show ?thesis by blast
qed

subsection \<open>The dotted-path lookup\<close>

























































text \<open>
  Where a field is absent and the metatable has an \<open>__index\<close> function, the outcome is that of
  the function: here it raises an error, and the call does not return.
\<close>

lemma Lookup_calls_index_function:
  "lookup_value handler_world (LTable 0) (split_path ''a.x'') = Leaves
   \<and> Lookup no_numerals True table_handle ''a.x'' handler_world = None
   \<and> do { (r, w') \<leftarrow> Lookup no_numerals True table_handle ''a.b'' handler_world;
          Some (value_of w' r, cerr w') } = Some (LInteger 7, [])"
proof -
  have 1: "lookup_value handler_world (LTable 0) (split_path ''a.x'') = Leaves" by code_simp
  have 2: "Lookup no_numerals True table_handle ''a.x'' handler_world = None" by code_simp
  have 3: "do { (r, w') \<leftarrow> Lookup no_numerals True table_handle ''a.b'' handler_world;
          Some (value_of w' r, cerr w') } = Some (LInteger 7, [])" by code_simp
  from 1 2 3 show ?thesis by blast
qed



end
